theory Spec2Isabelle
  imports Complex_Main "HOL-Library.Multiset"
begin

section \<open>Data model\<close>

text \<open>
  The questionnaire (\<open>MentalHealthForm\<close> in the client, \<open>formData\<close> in the persisted
  schema): ten numeric fields, which hold integers of the declared ranges; the fields
  are integers here, and the arithmetic of the scoring engine is done in the reals.
  On integers of the declared ranges every intermediate value of the JavaScript
  computation is a multiple of one half below 200, so reals and doubles agree.
\<close>

record FactorVector =
  sleepHours :: int
  anxietyLevel :: int
  stressFrequency :: int
  financialStress :: int
  socialSupport :: int
  workLifeBalance :: int
  physicalActivity :: int
  substanceUse :: int
  moodChanges :: int
  suicidalThoughts :: int

text \<open>
  The ranges of \<open>assessmentValidation\<close> and of \<open>submissionSchema.formData\<close>
  (the two tables agree).
\<close>

definition validFactorVector :: "FactorVector \<Rightarrow> bool" where
  "validFactorVector fd \<longleftrightarrow>
     0 \<le> sleepHours fd \<and> sleepHours fd \<le> 12 \<and>
     1 \<le> anxietyLevel fd \<and> anxietyLevel fd \<le> 10 \<and>
     1 \<le> stressFrequency fd \<and> stressFrequency fd \<le> 10 \<and>
     1 \<le> financialStress fd \<and> financialStress fd \<le> 10 \<and>
     1 \<le> socialSupport fd \<and> socialSupport fd \<le> 10 \<and>
     1 \<le> workLifeBalance fd \<and> workLifeBalance fd \<le> 10 \<and>
     1 \<le> physicalActivity fd \<and> physicalActivity fd \<le> 10 \<and>
     1 \<le> substanceUse fd \<and> substanceUse fd \<le> 10 \<and>
     1 \<le> moodChanges fd \<and> moodChanges fd \<le> 10 \<and>
     1 \<le> suicidalThoughts fd \<and> suicidalThoughts fd \<le> 10"

text \<open>
  The object returned by \<open>generateFallbackPrediction\<close> (\<open>RiskAssessment\<close> in the
  client's types). The classification is a string, as in the source. An instant of time
  is a number of milliseconds; \<open>timestamp\<close> is the instant the clock shows.
\<close>

type_synonym instant = nat

record RiskAssessment =
  prediction :: string
  confidence :: real
  recommendations :: "string list"
  timestamp :: instant

section \<open>The fallback scoring engine\<close>

text \<open>
  Lines 150 to 179 of the route file: \<open>riskScore\<close> starts at 0 and is increased
  statement by statement. Each \<open>let\<close> below is one statement of the source.
\<close>

definition riskScore :: "FactorVector \<Rightarrow> real" where
  "riskScore formData =
     (let r0 = 0;
          r1 = (if sleepHours formData < 6 then r0 + 15
                else if sleepHours formData < 7 then r0 + 8
                else if sleepHours formData > 9 then r0 + 5
                else r0);
          r2 = r1 + of_int (anxietyLevel formData - 1) * 2;
          r3 = r2 + of_int (stressFrequency formData - 1) * 2;
          r4 = r3 + of_int (financialStress formData - 1) * (3 / 2);
          r5 = r4 + of_int (10 - socialSupport formData) * 2;
          r6 = r5 + of_int (10 - workLifeBalance formData) * (3 / 2);
          r7 = r6 + of_int (10 - physicalActivity formData) * 1;
          r8 = r7 + of_int (substanceUse formData - 1) * 3;
          r9 = r8 + of_int (moodChanges formData - 1) * 2;
          r10 = r9 + of_int (suicidalThoughts formData - 1) * 5
      in r10)"

definition lowRiskRecommendations :: "string list" where
  "lowRiskRecommendations =
     [''Continue maintaining healthy habits'',
      ''Regular exercise and good sleep schedule'',
      ''Stay connected with friends and family'',
      ''Practice stress management techniques'']"

definition mediumRiskRecommendations :: "string list" where
  "mediumRiskRecommendations =
     [''Consider speaking with a mental health professional'',
      ''Focus on improving sleep quality and duration'',
      ''Increase physical activity and social connections'',
      ''Practice mindfulness and stress reduction techniques'',
      ''Limit alcohol and substance use'']"

definition highRiskRecommendations :: "string list" where
  "highRiskRecommendations =
     [''Strongly recommend seeking professional mental health support'',
      ''Contact a crisis helpline if experiencing suicidal thoughts'',
      ''Reach out to trusted friends, family, or support groups'',
      ''Consider medication evaluation with a psychiatrist'',
      ''Develop a safety plan with a mental health professional'']"

text \<open>
  Lines 181 to 221: the three branches on the score, and the returned object. The clock
  read by \<open>new Date()\<close> is the parameter \<open>now\<close>.
\<close>

definition generateFallbackPrediction :: "FactorVector \<Rightarrow> instant \<Rightarrow> RiskAssessment" where
  "generateFallbackPrediction formData now =
     (let score = riskScore formData
      in if score \<le> 30 then
           \<lparr>prediction = ''Low Risk'', confidence = 85 / 100,
            recommendations = lowRiskRecommendations, timestamp = now\<rparr>
         else if score \<le> 60 then
           \<lparr>prediction = ''Medium Risk'', confidence = 78 / 100,
            recommendations = mediumRiskRecommendations, timestamp = now\<rparr>
         else
           \<lparr>prediction = ''High Risk'', confidence = 82 / 100,
            recommendations = highRiskRecommendations, timestamp = now\<rparr>)"

section \<open>Stored submissions and the trend of the dashboard\<close>

text \<open>
  A stored submission, as \<open>submissionSchema\<close> declares it and as the client's
  \<open>Submission\<close> type reads it. \<open>ipAddress\<close> and \<open>userAgent\<close> are not required by
  the schema, and the history projection removes them: they are optional here. The
  document identifier is left out.
\<close>

record Submission =
  userId :: string
  formData :: FactorVector
  prediction :: RiskAssessment
  ipAddress :: "string option"
  userAgent :: "string option"
  createdAt :: instant

text \<open>
  \<open>getRiskTrend\<close> of the dashboard. \<open>riskLevels\<close> is the object literal, read by
  key; a key it does not have reads \<open>undefined\<close>, which is \<open>None\<close>. JavaScript's
  \<open><\<close> is false as soon as one side is \<open>undefined\<close>.
\<close>

definition riskLevels :: "string \<rightharpoonup> nat" where
  "riskLevels = [''Low Risk'' \<mapsto> 1, ''Medium Risk'' \<mapsto> 2, ''High Risk'' \<mapsto> 3]"

fun lessThan_js :: "nat option \<Rightarrow> nat option \<Rightarrow> bool" where
  "lessThan_js (Some a) (Some b) = (a < b)"
| "lessThan_js _ _ = False"

definition getRiskTrend :: "Submission list \<Rightarrow> string option" where
  "getRiskTrend assessmentHistory =
     (if length assessmentHistory < 2 then None
      else
        let latest = assessmentHistory ! 0;
            previous = assessmentHistory ! 1;
            latestLevel = riskLevels (RiskAssessment.prediction (Submission.prediction latest));
            previousLevel = riskLevels (RiskAssessment.prediction (Submission.prediction previous))
        in if lessThan_js latestLevel previousLevel then Some ''improving''
           else if lessThan_js previousLevel latestLevel then Some ''worsening''
           else Some ''stable'')"

section \<open>The request body and its validation\<close>

text \<open>
  The body of a request as \<open>express.json()\<close> delivers it: a field is absent
  (\<open>None\<close>) or holds a JSON value, which may be an array or an object.
\<close>

datatype jsvalue =
    JNull
  | JBool bool
  | JNum real
  | JStr string
  | JArr "jsvalue list"
  | JObj "(string \<times> jsvalue) list"

type_synonym body = "string \<rightharpoonup> jsvalue"


text \<open>
  The integer regular expression of the validation library: an optional sign followed
  by one or more decimal digits; and the number such a string denotes.
\<close>

definition isDigit :: "char \<Rightarrow> bool" where
  "isDigit c \<longleftrightarrow> c \<in> set ''0123456789''"

definition digitsValue :: "string \<Rightarrow> nat" where
  "digitsValue s = foldl (\<lambda>n c. 10 * n + (of_char c - 48)) 0 s"

definition matchesInt :: "string \<Rightarrow> bool" where
  "matchesInt s =
     (case s of
        [] \<Rightarrow> False
      | c # cs \<Rightarrow>
          if c = CHR ''-'' \<or> c = CHR ''+'' then cs \<noteq> [] \<and> list_all isDigit cs
          else list_all isDigit s)"

definition stringToNumber :: "string \<Rightarrow> int" where
  "stringToNumber s =
     (case s of
        [] \<Rightarrow> 0
      | c # cs \<Rightarrow>
          if c = CHR ''-'' then - int (digitsValue cs)
          else if c = CHR ''+'' then int (digitsValue cs)
          else int (digitsValue s))"

text \<open>
  \<open>reading v\<close> is the integer that \<open>v\<close>, written as a string, denotes, when
  that string matches the regular expression. A number is written with digits only when
  it is integral and below \<open>10^21\<close>; a string is written as itself; an array is
  written as its elements separated by commas, so only an array of one element can
  match, and it is written as that element is; \<open>null\<close>, booleans, objects, the empty
  array and arrays of several elements are written as strings that do not match.
\<close>

fun reading :: "jsvalue \<Rightarrow> int option" where
  "reading (JNum r) = (if r = of_int \<lfloor>r\<rfloor> \<and> \<bar>r\<bar> < 10 ^ 21 then Some \<lfloor>r\<rfloor> else None)"
| "reading (JStr s) = (if matchesInt s then Some (stringToNumber s) else None)"
| "reading (JArr [e]) = reading e"
| "reading _ = None"

text \<open>
  \<open>isInt({min, max})\<close> of the validation library tests the field written as a
  string, and writes an array that is not empty as its first element alone: \<open>[5]\<close>,
  \<open>[5, 99]\<close> and \<open>["5"]\<close> are all tested as \<open>5\<close>. An absent field is written
  as the empty string. The test holds when the string matches the regular expression
  and the number it denotes lies between \<open>min\<close> and \<open>max\<close>.
\<close>

definition written :: "jsvalue option \<Rightarrow> int option" where
  "written v =
     (case v of
        None \<Rightarrow> None
      | Some (JArr (e # es)) \<Rightarrow> reading e
      | Some x \<Rightarrow> reading x)"

definition isInt :: "int \<Rightarrow> int \<Rightarrow> jsvalue option \<Rightarrow> bool" where
  "isInt lo hi v = (case written v of None \<Rightarrow> False | Some k \<Rightarrow> lo \<le> k \<and> k \<le> hi)"

text \<open>
  One entry of \<open>assessmentValidation\<close>:
  \<open>body(field).isInt({min, max}).withMessage(message)\<close>.
\<close>

record Rule =
  field :: string
  minimum :: int
  maximum :: int
  message :: string

definition assessmentValidation :: "Rule list" where
  "assessmentValidation =
     [\<lparr>field = ''sleepHours'', minimum = 0, maximum = 12,
        message = ''Sleep hours must be between 0 and 12''\<rparr>,
      \<lparr>field = ''anxietyLevel'', minimum = 1, maximum = 10,
        message = ''Anxiety level must be between 1 and 10''\<rparr>,
      \<lparr>field = ''stressFrequency'', minimum = 1, maximum = 10,
        message = ''Stress frequency must be between 1 and 10''\<rparr>,
      \<lparr>field = ''financialStress'', minimum = 1, maximum = 10,
        message = ''Financial stress must be between 1 and 10''\<rparr>,
      \<lparr>field = ''socialSupport'', minimum = 1, maximum = 10,
        message = ''Social support must be between 1 and 10''\<rparr>,
      \<lparr>field = ''workLifeBalance'', minimum = 1, maximum = 10,
        message = ''Work-life balance must be between 1 and 10''\<rparr>,
      \<lparr>field = ''physicalActivity'', minimum = 1, maximum = 10,
        message = ''Physical activity must be between 1 and 10''\<rparr>,
      \<lparr>field = ''substanceUse'', minimum = 1, maximum = 10,
        message = ''Substance use must be between 1 and 10''\<rparr>,
      \<lparr>field = ''moodChanges'', minimum = 1, maximum = 10,
        message = ''Mood changes must be between 1 and 10''\<rparr>,
      \<lparr>field = ''suicidalThoughts'', minimum = 1, maximum = 10,
        message = ''Suicidal thoughts must be between 1 and 10''\<rparr>]"

text \<open>
  The validation chains run one after the other as middleware, each adding its error to
  the request; \<open>validationResult(req).array()\<close> is the list of all of them, in the
  order of the chains.
\<close>

record ValidationError =
  param :: string
  msg :: string
  rejected :: "jsvalue option"

fun runValidation :: "Rule list \<Rightarrow> body \<Rightarrow> ValidationError list" where
  "runValidation [] b = []"
| "runValidation (r # rs) b =
     (if isInt (minimum r) (maximum r) (b (field r)) then runValidation rs b
      else \<lparr>param = field r, msg = message r, rejected = b (field r)\<rparr> # runValidation rs b)"

definition validationResult :: "body \<Rightarrow> ValidationError list" where
  "validationResult b = runValidation assessmentValidation b"

text \<open>
  The handler passes the body itself to \<open>generateFallbackPrediction\<close>, whose operators
  \<open><\<close>, \<open>>\<close> and \<open>-\<close> read each field as a number. For a field that passed
  \<open>isInt\<close> that number is the integer the field denotes, or \<open>NaN\<close> (\<open>None\<close>) when
  the field is an array of several elements; \<open>toNumber\<close> is applied to no other field.
  A comparison with \<open>NaN\<close> is false, so a \<open>sleepHours\<close> that reads \<open>NaN\<close> adds
  no sleep term, exactly as 8 hours do. A sum with \<open>NaN\<close> is \<open>NaN\<close>, which fails
  both threshold tests, so a \<open>NaN\<close> in any other field ends in the last branch.
\<close>

definition toNumber :: "jsvalue option \<Rightarrow> int option" where
  "toNumber v = (case v of None \<Rightarrow> None | Some x \<Rightarrow> reading x)"

definition numericFields :: "body \<Rightarrow> int \<Rightarrow> FactorVector option" where
  "numericFields b h =
     Option.bind (toNumber (b ''anxietyLevel'')) (\<lambda>an.
     Option.bind (toNumber (b ''stressFrequency'')) (\<lambda>st.
     Option.bind (toNumber (b ''financialStress'')) (\<lambda>fi.
     Option.bind (toNumber (b ''socialSupport'')) (\<lambda>so.
     Option.bind (toNumber (b ''workLifeBalance'')) (\<lambda>wo.
     Option.bind (toNumber (b ''physicalActivity'')) (\<lambda>ph.
     Option.bind (toNumber (b ''substanceUse'')) (\<lambda>su.
     Option.bind (toNumber (b ''moodChanges'')) (\<lambda>mo.
     Option.bind (toNumber (b ''suicidalThoughts'')) (\<lambda>th.
       Some \<lparr>sleepHours = h, anxietyLevel = an, stressFrequency = st,
             financialStress = fi, socialSupport = so, workLifeBalance = wo,
             physicalActivity = ph, substanceUse = su, moodChanges = mo,
             suicidalThoughts = th\<rparr>)))))))))"

definition generateFallbackPrediction_body :: "body \<Rightarrow> instant \<Rightarrow> RiskAssessment" where
  "generateFallbackPrediction_body b now =
     (let h = (case toNumber (b ''sleepHours'') of Some h \<Rightarrow> h | None \<Rightarrow> 8)
      in case numericFields b h of
           Some fd \<Rightarrow> generateFallbackPrediction fd now
         | None \<Rightarrow>
             \<lparr>RiskAssessment.prediction = ''High Risk'', confidence = 82 / 100,
              recommendations = highRiskRecommendations, timestamp = now\<rparr>)"

text \<open>The \<open>features\<close> array posted to the predictor: the ten fields as received.\<close>

definition features :: "body \<Rightarrow> jsvalue option list" where
  "features b =
     [b ''sleepHours'', b ''anxietyLevel'', b ''stressFrequency'', b ''financialStress'',
      b ''socialSupport'', b ''workLifeBalance'', b ''physicalActivity'', b ''substanceUse'',
      b ''moodChanges'', b ''suicidalThoughts'']"

section \<open>The predictor, the store and the two route handlers\<close>

text \<open>
  The value of the handler's variable \<open>prediction\<close>, which is either the \<open>data\<close>
  of the predictor's response or the object built by the fallback: an object whose four
  known fields are each absent or of the type the schema declares. Fields of another
  type, and response bodies that are not objects, are outside this model.
\<close>

record PredictorResponse =
  data_prediction :: "string option"
  data_confidence :: "real option"
  data_recommendations :: "string list option"
  data_timestamp :: "instant option"

definition asData :: "RiskAssessment \<Rightarrow> PredictorResponse" where
  "asData r =
     \<lparr>data_prediction = Some (RiskAssessment.prediction r),
      data_confidence = Some (confidence r),
      data_recommendations = Some (recommendations r),
      data_timestamp = Some (timestamp r)\<rparr>"

text \<open>
  What \<open>await axios.post(...)\<close> does: the promise resolves with a response, of which
  the handler reads \<open>data\<close>, or it rejects with an error, of which the handler reads
  \<open>message\<close>. The HTTP client rejects when the 10000 ms timeout passes, when there is no
  connection and when the status is not a success; it resolves on a success status
  whatever the body holds.
\<close>

datatype MlOutcome = Resolved PredictorResponse | Rejected string

text \<open>
  The state outside the handlers: the submissions collection in insertion order, the
  \<open>assessmentCount\<close> of each user document, the requests posted to the predictor and
  the lines written by \<open>console.error\<close>: the predictor's error with its message, and
  the error of the submission handler.
\<close>

datatype LogEntry = PredictorError string | SubmissionError

record World =
  submissions :: "Submission list"
  assessmentCount :: "string \<rightharpoonup> nat"
  mlRequests :: "jsvalue option list list"
  console :: "LogEntry list"

text \<open>
  \<open>submission.save()\<close> casts the document to \<open>submissionSchema\<close>, validates it and
  throws when it does not fit. \<open>prediction.prediction\<close> is required and one of the three
  strings of the \<open>enum\<close>, \<open>prediction.confidence\<close> is required and between 0 and 1,
  a missing \<open>recommendations\<close> is the empty array, a missing \<open>timestamp\<close> defaults to
  now. Every field of \<open>formData\<close> is a required \<open>Number\<close> between its \<open>min\<close> and
  \<open>max\<close>: an absent field and \<open>null\<close> fail as missing, an array or an object
  cannot be cast to a number, a boolean is cast to 0 or 1, a number is kept and a
  string is cast to the number it denotes. The stored fields are integers here: a
  number that is not integral and a string that is not an integer do not pass the
  validation chains, so they never reach \<open>save\<close>, and the cast is \<open>None\<close> for them.
  \<open>None\<close> is the thrown error. The store itself is taken to be reachable.
\<close>

fun castNumber :: "jsvalue option \<Rightarrow> int option" where
  "castNumber None = None"
| "castNumber (Some JNull) = None"
| "castNumber (Some (JBool b)) = Some (if b then 1 else 0)"
| "castNumber (Some (JNum r)) = (if r = of_int \<lfloor>r\<rfloor> then Some \<lfloor>r\<rfloor> else None)"
| "castNumber (Some (JStr s)) = (if matchesInt s then Some (stringToNumber s) else None)"
| "castNumber (Some (JArr es)) = None"
| "castNumber (Some (JObj fs)) = None"

definition castFormData :: "body \<Rightarrow> FactorVector option" where
  "castFormData b =
     Option.bind (castNumber (b ''sleepHours'')) (\<lambda>sl.
     Option.bind (castNumber (b ''anxietyLevel'')) (\<lambda>an.
     Option.bind (castNumber (b ''stressFrequency'')) (\<lambda>st.
     Option.bind (castNumber (b ''financialStress'')) (\<lambda>fi.
     Option.bind (castNumber (b ''socialSupport'')) (\<lambda>so.
     Option.bind (castNumber (b ''workLifeBalance'')) (\<lambda>wo.
     Option.bind (castNumber (b ''physicalActivity'')) (\<lambda>ph.
     Option.bind (castNumber (b ''substanceUse'')) (\<lambda>su.
     Option.bind (castNumber (b ''moodChanges'')) (\<lambda>mo.
     Option.bind (castNumber (b ''suicidalThoughts'')) (\<lambda>th.
       Some \<lparr>sleepHours = sl, anxietyLevel = an, stressFrequency = st,
             financialStress = fi, socialSupport = so, workLifeBalance = wo,
             physicalActivity = ph, substanceUse = su, moodChanges = mo,
             suicidalThoughts = th\<rparr>))))))))))"

definition castPrediction :: "PredictorResponse \<Rightarrow> instant \<Rightarrow> RiskAssessment option" where
  "castPrediction d now =
     (case (data_prediction d, data_confidence d) of
        (Some p, Some c) \<Rightarrow>
          if p \<in> set [''Low Risk'', ''Medium Risk'', ''High Risk''] \<and> 0 \<le> c \<and> c \<le> 1
          then Some \<lparr>RiskAssessment.prediction = p, confidence = c,
                     recommendations = (case data_recommendations d of None \<Rightarrow> [] | Some rs \<Rightarrow> rs),
                     timestamp = (case data_timestamp d of None \<Rightarrow> now | Some t \<Rightarrow> t)\<rparr>
          else None
      | _ \<Rightarrow> None)"

definition save ::
  "string \<Rightarrow> body \<Rightarrow> PredictorResponse \<Rightarrow> string option \<Rightarrow> string option \<Rightarrow>
   instant \<Rightarrow> World \<Rightarrow> World option" where
  "save uid b p ipA ua now w =
     (case castPrediction p now of
        None \<Rightarrow> None
      | Some ra \<Rightarrow>
          (case castFormData b of
             None \<Rightarrow> None
           | Some fd \<Rightarrow>
               if validFactorVector fd
               then Some (w\<lparr>submissions := submissions w @
                      [\<lparr>userId = uid, formData = fd, prediction = ra, ipAddress = ipA,
                        userAgent = ua, createdAt = now\<rparr>]\<rparr>)
               else None))"

text \<open>\<open>User.findByIdAndUpdate(userId, {$inc: {assessmentCount: 1}})\<close>.\<close>

definition incAssessmentCount :: "string \<Rightarrow> World \<Rightarrow> World" where
  "incAssessmentCount uid w =
     (case assessmentCount w uid of
        None \<Rightarrow> w
      | Some n \<Rightarrow> w\<lparr>assessmentCount := (assessmentCount w)(uid \<mapsto> n + 1)\<rparr>)"

record Request =
  user :: string
  body :: body
  ip :: "string option"
  userAgentHeader :: "string option"

record Pagination =
  page :: int
  limit :: int
  total :: int
  pages :: int

datatype Response =
    ValidationFailed "ValidationError list"
  | AssessmentCompleted PredictorResponse
  | HistoryPage "Submission list" Pagination
  | ServerError string

fun status :: "Response \<Rightarrow> nat" where
  "status (ValidationFailed errors) = 400"
| "status (AssessmentCompleted d) = 200"
| "status (HistoryPage ss p) = 200"
| "status (ServerError m) = 500"

text \<open>
  \<open>router.post('/submit')\<close>, after the authentication middleware has set \<open>req.user\<close>.
  The outcome of the call of the predictor and the clock are parameters.
\<close>

definition submit :: "Request \<Rightarrow> MlOutcome \<Rightarrow> instant \<Rightarrow> World \<Rightarrow> Response \<times> World" where
  "submit req ml now w =
     (let errors = validationResult (body req)
      in if errors \<noteq> [] then (ValidationFailed errors, w)
         else
           let formData = body req;
               userId = user req;
               w1 = w\<lparr>mlRequests := mlRequests w @ [features formData]\<rparr>;
               (prediction, w2) =
                 (case ml of
                    Resolved d \<Rightarrow> (d, w1)
                  | Rejected m \<Rightarrow>
                      (asData (generateFallbackPrediction_body formData now),
                       w1\<lparr>console := console w1 @ [PredictorError m]\<rparr>))
           in case save userId formData prediction (ip req) (userAgentHeader req) now w2 of
                None \<Rightarrow>
                  (ServerError ''Server error during assessment submission'',
                   w2\<lparr>console := console w2 @ [SubmissionError]\<rparr>)
              | Some w3 \<Rightarrow> (AssessmentCompleted prediction, incAssessmentCount userId w3))"

text \<open>
  \<open>router.get('/history')\<close>. \<open>parseInt(x) || d\<close> is \<open>d\<close> when \<open>parseInt\<close> gives
  \<open>NaN\<close> (\<open>None\<close>) or 0; the two results of \<open>parseInt\<close> are parameters. The database
  refuses a negative \<open>skip\<close>, which the handler answers with status 500; a \<open>limit\<close>
  of 0 is no limit and a negative one counts as its absolute value, but \<open>limit\<close> is
  never 0 here, so that \<open>total / limit\<close> never divides by zero. The sort is descending
  by \<open>createdAt\<close>; submissions created at the same instant keep the order in which
  they were stored. The projection removes \<open>ipAddress\<close> and \<open>userAgent\<close>.
\<close>

definition orDefault :: "int option \<Rightarrow> int \<Rightarrow> int" where
  "orDefault parsed d = (case parsed of None \<Rightarrow> d | Some k \<Rightarrow> if k = 0 then d else k)"

definition sortByCreatedAtDesc :: "Submission list \<Rightarrow> Submission list" where
  "sortByCreatedAtDesc ss = sort_key (\<lambda>s. - int (createdAt s)) ss"

definition withoutProvenance :: "Submission \<Rightarrow> Submission" where
  "withoutProvenance s = s\<lparr>ipAddress := None, userAgent := None\<rparr>"

definition findForUser :: "string \<Rightarrow> int \<Rightarrow> int \<Rightarrow> World \<Rightarrow> Submission list option" where
  "findForUser uid skip n w =
     (if skip < 0 then None
      else
        let ordered = sortByCreatedAtDesc (filter (\<lambda>s. userId s = uid) (submissions w));
            skipped = drop (nat skip) ordered;
            limited = (if n = 0 then skipped else take (nat \<bar>n\<bar>) skipped)
        in Some (map withoutProvenance limited))"

definition countDocuments :: "string \<Rightarrow> World \<Rightarrow> int" where
  "countDocuments uid w = int (length (filter (\<lambda>s. userId s = uid) (submissions w)))"

definition history :: "string \<Rightarrow> int option \<Rightarrow> int option \<Rightarrow> World \<Rightarrow> Response" where
  "history uid parsedPage parsedLimit w =
     (let page = orDefault parsedPage 1;
          limit = orDefault parsedLimit 10;
          skip = (page - 1) * limit
      in case findForUser uid skip limit w of
           None \<Rightarrow> ServerError ''Server error fetching assessment history''
         | Some found \<Rightarrow>
             let total = countDocuments uid w
             in HistoryPage found
                  \<lparr>page = page, limit = limit, total = total,
                   pages = \<lceil>real_of_int total / real_of_int limit\<rceil>\<rparr>)"

section \<open>The score as a sum of independent terms\<close>

text \<open>
  C1. For every valid factor vector the risk score is the sum of the sleep bucket term
  (15 below six hours, 8 below seven, 5 above nine, 0 otherwise), the six linear terms
  \<open>(value - 1) * weight\<close> and the three inverted terms \<open>(10 - value) * weight\<close>;
  nothing clamps the sum.
\<close>

theorem riskScore_is_weighted_sum:
  assumes "validFactorVector fd"
  shows "riskScore fd =
     (if sleepHours fd < 6 then 15 else if sleepHours fd < 7 then 8
      else if sleepHours fd > 9 then 5 else 0)
     + (of_int (anxietyLevel fd) - 1) * 2
     + (of_int (stressFrequency fd) - 1) * 2
     + (of_int (financialStress fd) - 1) * 1.5
     + (of_int (substanceUse fd) - 1) * 3
     + (of_int (moodChanges fd) - 1) * 2
     + (of_int (suicidalThoughts fd) - 1) * 5
     + (10 - of_int (socialSupport fd)) * 2
     + (10 - of_int (workLifeBalance fd)) * 1.5
     + (10 - of_int (physicalActivity fd)) * 1"
  by (simp add: riskScore_def Let_def algebra_simps)

theorem riskScore_is_weighted_sum_witness:
  "validFactorVector
     \<lparr>sleepHours = 6, anxietyLevel = 3, stressFrequency = 2, financialStress = 4,
      socialSupport = 9, workLifeBalance = 8, physicalActivity = 7, substanceUse = 1,
      moodChanges = 2, suicidalThoughts = 1\<rparr>
   \<and> riskScore
     \<lparr>sleepHours = 6, anxietyLevel = 3, stressFrequency = 2, financialStress = 4,
      socialSupport = 9, workLifeBalance = 8, physicalActivity = 7, substanceUse = 1,
      moodChanges = 2, suicidalThoughts = 1\<rparr> = 57 / 2"
proof -
  let ?fd = "\<lparr>sleepHours = 6, anxietyLevel = 3, stressFrequency = 2, financialStress = 4,
      socialSupport = 9, workLifeBalance = 8, physicalActivity = 7, substanceUse = 1,
      moodChanges = 2, suicidalThoughts = 1\<rparr>"
  have v: "validFactorVector ?fd"
    by (simp add: validFactorVector_def)
  show ?thesis
    using v riskScore_is_weighted_sum [OF v] by simp
qed

text \<open>
  C5. The end-to-end scenario of the specification: the engine scores the given vector
  91.5, the sum of the ten terms 15, 14, 12, 7.5, 14, 9, 7, 3, 10 and 0, and returns
  High Risk with confidence 0.82 and the five recommendations of set C: professional
  support, the crisis helpline, trusted contacts, a psychiatric evaluation and a safety
  plan, written out below.
\<close>

theorem end_to_end_scenario:
  "riskScore
     \<lparr>sleepHours = 5, anxietyLevel = 8, stressFrequency = 7, financialStress = 6,
      socialSupport = 3, workLifeBalance = 4, physicalActivity = 3, substanceUse = 2,
      moodChanges = 6, suicidalThoughts = 1\<rparr> = 91.5
   \<and> (91.5 :: real) = 15 + 14 + 12 + 7.5 + 14 + 9 + 7 + 3 + 10 + 0
   \<and> generateFallbackPrediction
     \<lparr>sleepHours = 5, anxietyLevel = 8, stressFrequency = 7, financialStress = 6,
      socialSupport = 3, workLifeBalance = 4, physicalActivity = 3, substanceUse = 2,
      moodChanges = 6, suicidalThoughts = 1\<rparr> now
     = \<lparr>RiskAssessment.prediction = ''High Risk'', confidence = 0.82,
        recommendations =
             [''Strongly recommend seeking professional mental health support'',
              ''Contact a crisis helpline if experiencing suicidal thoughts'',
              ''Reach out to trusted friends, family, or support groups'',
              ''Consider medication evaluation with a psychiatrist'',
              ''Develop a safety plan with a mental health professional''], timestamp = now\<rparr>"
  by (simp add: generateFallbackPrediction_def riskScore_def highRiskRecommendations_def)

section \<open>Classification\<close>

text \<open>
  C2. The score is classified by inclusive thresholds taken in order: at most 30 is Low
  Risk with confidence 0.85 and the four recommendations of set A, above 30 and at most
  60 is Medium Risk with 0.78 and the five recommendations of set B, above 60 is High
  Risk with 0.82 and the five recommendations of set C; the three sets are written out.
  Two results with the same classification have the same confidence and the same
  recommendations, whatever their scores.
\<close>

theorem classification_by_thresholds:
  assumes "validFactorVector fd"
  shows "(riskScore fd \<le> 30 \<longrightarrow> generateFallbackPrediction fd now =
            \<lparr>RiskAssessment.prediction = ''Low Risk'', confidence = 0.85,
             recommendations =
             [''Continue maintaining healthy habits'',
              ''Regular exercise and good sleep schedule'',
              ''Stay connected with friends and family'',
              ''Practice stress management techniques''], timestamp = now\<rparr>)
   \<and> (30 < riskScore fd \<and> riskScore fd \<le> 60 \<longrightarrow> generateFallbackPrediction fd now =
            \<lparr>RiskAssessment.prediction = ''Medium Risk'', confidence = 0.78,
             recommendations =
             [''Consider speaking with a mental health professional'',
              ''Focus on improving sleep quality and duration'',
              ''Increase physical activity and social connections'',
              ''Practice mindfulness and stress reduction techniques'',
              ''Limit alcohol and substance use''], timestamp = now\<rparr>)
   \<and> (60 < riskScore fd \<longrightarrow> generateFallbackPrediction fd now =
            \<lparr>RiskAssessment.prediction = ''High Risk'', confidence = 0.82,
             recommendations =
             [''Strongly recommend seeking professional mental health support'',
              ''Contact a crisis helpline if experiencing suicidal thoughts'',
              ''Reach out to trusted friends, family, or support groups'',
              ''Consider medication evaluation with a psychiatrist'',
              ''Develop a safety plan with a mental health professional''], timestamp = now\<rparr>)
   \<and> (\<forall>fd' now'.
          RiskAssessment.prediction (generateFallbackPrediction fd' now')
            = RiskAssessment.prediction (generateFallbackPrediction fd now) \<longrightarrow>
          confidence (generateFallbackPrediction fd' now')
            = confidence (generateFallbackPrediction fd now)
          \<and> recommendations (generateFallbackPrediction fd' now')
            = recommendations (generateFallbackPrediction fd now))"
  by (simp add: generateFallbackPrediction_def Let_def lowRiskRecommendations_def
      mediumRiskRecommendations_def highRiskRecommendations_def split: if_splits)

text \<open>
  The witness takes vectors that score exactly 30, 30.5, 60 and 60.5 (scores are
  multiples of one half), and a second Low Risk vector with score 0.
\<close>

theorem classification_by_thresholds_witness:
  "validFactorVector
     \<lparr>sleepHours = 8, anxietyLevel = 10, stressFrequency = 7, financialStress = 1,
      socialSupport = 10, workLifeBalance = 10, physicalActivity = 10, substanceUse = 1,
      moodChanges = 1, suicidalThoughts = 1\<rparr>
   \<and> riskScore
     \<lparr>sleepHours = 8, anxietyLevel = 10, stressFrequency = 7, financialStress = 1,
      socialSupport = 10, workLifeBalance = 10, physicalActivity = 10, substanceUse = 1,
      moodChanges = 1, suicidalThoughts = 1\<rparr> = 30
   \<and> RiskAssessment.prediction (generateFallbackPrediction
     \<lparr>sleepHours = 8, anxietyLevel = 10, stressFrequency = 7, financialStress = 1,
      socialSupport = 10, workLifeBalance = 10, physicalActivity = 10, substanceUse = 1,
      moodChanges = 1, suicidalThoughts = 1\<rparr> 0) = ''Low Risk''
   \<and> riskScore
     \<lparr>sleepHours = 6, anxietyLevel = 10, stressFrequency = 1, financialStress = 4,
      socialSupport = 10, workLifeBalance = 10, physicalActivity = 10, substanceUse = 1,
      moodChanges = 1, suicidalThoughts = 1\<rparr> = 30.5
   \<and> RiskAssessment.prediction (generateFallbackPrediction
     \<lparr>sleepHours = 6, anxietyLevel = 10, stressFrequency = 1, financialStress = 4,
      socialSupport = 10, workLifeBalance = 10, physicalActivity = 10, substanceUse = 1,
      moodChanges = 1, suicidalThoughts = 1\<rparr> 0) = ''Medium Risk''
   \<and> riskScore
     \<lparr>sleepHours = 8, anxietyLevel = 10, stressFrequency = 10, financialStress = 1,
      socialSupport = 10, workLifeBalance = 10, physicalActivity = 10, substanceUse = 3,
      moodChanges = 10, suicidalThoughts = 1\<rparr> = 60
   \<and> generateFallbackPrediction
     \<lparr>sleepHours = 8, anxietyLevel = 10, stressFrequency = 10, financialStress = 1,
      socialSupport = 10, workLifeBalance = 10, physicalActivity = 10, substanceUse = 3,
      moodChanges = 10, suicidalThoughts = 1\<rparr> 0
     = \<lparr>RiskAssessment.prediction = ''Medium Risk'', confidence = 0.78,
        recommendations =
             [''Consider speaking with a mental health professional'',
              ''Focus on improving sleep quality and duration'',
              ''Increase physical activity and social connections'',
              ''Practice mindfulness and stress reduction techniques'',
              ''Limit alcohol and substance use''], timestamp = 0\<rparr>
   \<and> riskScore
     \<lparr>sleepHours = 6, anxietyLevel = 10, stressFrequency = 10, financialStress = 4,
      socialSupport = 10, workLifeBalance = 10, physicalActivity = 10, substanceUse = 1,
      moodChanges = 7, suicidalThoughts = 1\<rparr> = 60.5
   \<and> RiskAssessment.prediction (generateFallbackPrediction
     \<lparr>sleepHours = 6, anxietyLevel = 10, stressFrequency = 10, financialStress = 4,
      socialSupport = 10, workLifeBalance = 10, physicalActivity = 10, substanceUse = 1,
      moodChanges = 7, suicidalThoughts = 1\<rparr> 0) = ''High Risk''
   \<and> riskScore
     \<lparr>sleepHours = 8, anxietyLevel = 1, stressFrequency = 1, financialStress = 1,
      socialSupport = 10, workLifeBalance = 10, physicalActivity = 10, substanceUse = 1,
      moodChanges = 1, suicidalThoughts = 1\<rparr> = 0
   \<and> confidence (generateFallbackPrediction
     \<lparr>sleepHours = 8, anxietyLevel = 1, stressFrequency = 1, financialStress = 1,
      socialSupport = 10, workLifeBalance = 10, physicalActivity = 10, substanceUse = 1,
      moodChanges = 1, suicidalThoughts = 1\<rparr> 7) = 0.85
   \<and> recommendations (generateFallbackPrediction
     \<lparr>sleepHours = 8, anxietyLevel = 1, stressFrequency = 1, financialStress = 1,
      socialSupport = 10, workLifeBalance = 10, physicalActivity = 10, substanceUse = 1,
      moodChanges = 1, suicidalThoughts = 1\<rparr> 7) =
             [''Continue maintaining healthy habits'',
              ''Regular exercise and good sleep schedule'',
              ''Stay connected with friends and family'',
              ''Practice stress management techniques'']"
proof -
  let ?a = "\<lparr>sleepHours = 8, anxietyLevel = 10, stressFrequency = 7, financialStress = 1,
      socialSupport = 10, workLifeBalance = 10, physicalActivity = 10, substanceUse = 1,
      moodChanges = 1, suicidalThoughts = 1\<rparr>"
  let ?b = "\<lparr>sleepHours = 6, anxietyLevel = 10, stressFrequency = 1, financialStress = 4,
      socialSupport = 10, workLifeBalance = 10, physicalActivity = 10, substanceUse = 1,
      moodChanges = 1, suicidalThoughts = 1\<rparr>"
  let ?c = "\<lparr>sleepHours = 8, anxietyLevel = 10, stressFrequency = 10, financialStress = 1,
      socialSupport = 10, workLifeBalance = 10, physicalActivity = 10, substanceUse = 3,
      moodChanges = 10, suicidalThoughts = 1\<rparr>"
  let ?d = "\<lparr>sleepHours = 6, anxietyLevel = 10, stressFrequency = 10, financialStress = 4,
      socialSupport = 10, workLifeBalance = 10, physicalActivity = 10, substanceUse = 1,
      moodChanges = 7, suicidalThoughts = 1\<rparr>"
  let ?z = "\<lparr>sleepHours = 8, anxietyLevel = 1, stressFrequency = 1, financialStress = 1,
      socialSupport = 10, workLifeBalance = 10, physicalActivity = 10, substanceUse = 1,
      moodChanges = 1, suicidalThoughts = 1\<rparr>"
  have va: "validFactorVector ?a" and vb: "validFactorVector ?b"
    and vc: "validFactorVector ?c" and vd: "validFactorVector ?d"
    and vz: "validFactorVector ?z"
    by (simp_all add: validFactorVector_def)
  have sa: "riskScore ?a = 30" and sb: "riskScore ?b = 30.5" and sc: "riskScore ?c = 60"
    and sd: "riskScore ?d = 60.5" and sz: "riskScore ?z = 0"
    by (simp_all add: riskScore_def)
  have ga: "generateFallbackPrediction ?a 0 =
      \<lparr>RiskAssessment.prediction = ''Low Risk'', confidence = 0.85,
       recommendations =
             [''Continue maintaining healthy habits'',
              ''Regular exercise and good sleep schedule'',
              ''Stay connected with friends and family'',
              ''Practice stress management techniques''], timestamp = 0\<rparr>"
    using classification_by_thresholds [OF va, of 0] sa by simp
  have gb: "RiskAssessment.prediction (generateFallbackPrediction ?b 0) = ''Medium Risk''"
    using classification_by_thresholds [OF vb, of 0] sb by simp
  have gc: "generateFallbackPrediction ?c 0 =
      \<lparr>RiskAssessment.prediction = ''Medium Risk'', confidence = 0.78,
       recommendations =
             [''Consider speaking with a mental health professional'',
              ''Focus on improving sleep quality and duration'',
              ''Increase physical activity and social connections'',
              ''Practice mindfulness and stress reduction techniques'',
              ''Limit alcohol and substance use''], timestamp = 0\<rparr>"
    using classification_by_thresholds [OF vc, of 0] sc by simp
  have gd: "RiskAssessment.prediction (generateFallbackPrediction ?d 0) = ''High Risk''"
    using classification_by_thresholds [OF vd, of 0] sd by simp
  have gz: "RiskAssessment.prediction (generateFallbackPrediction ?z 7) = ''Low Risk''"
    using classification_by_thresholds [OF vz, of 7] sz by simp
  have same: "confidence (generateFallbackPrediction ?z 7)
                = confidence (generateFallbackPrediction ?a 0)
      \<and> recommendations (generateFallbackPrediction ?z 7)
                = recommendations (generateFallbackPrediction ?a 0)"
    using classification_by_thresholds [OF va, of 0] gz ga by simp
  show ?thesis
    using va sa sb sc sd sz ga gb gc gd same by simp
qed

section \<open>Monotonicity\<close>

text \<open>
  C4. With the other fields fixed, raising \<open>suicidalThoughts\<close>, \<open>anxietyLevel\<close>,
  \<open>stressFrequency\<close>, \<open>financialStress\<close>, \<open>substanceUse\<close> or \<open>moodChanges\<close>
  within its range never lowers the score, and raising \<open>socialSupport\<close>,
  \<open>workLifeBalance\<close> or \<open>physicalActivity\<close> never raises it.
\<close>

theorem riskScore_monotone:
  assumes "validFactorVector fd"
  shows "(suicidalThoughts fd \<le> v \<and> validFactorVector (fd\<lparr>suicidalThoughts := v\<rparr>)
            \<longrightarrow> riskScore fd \<le> riskScore (fd\<lparr>suicidalThoughts := v\<rparr>))
   \<and> (anxietyLevel fd \<le> v \<and> validFactorVector (fd\<lparr>anxietyLevel := v\<rparr>)
            \<longrightarrow> riskScore fd \<le> riskScore (fd\<lparr>anxietyLevel := v\<rparr>))
   \<and> (stressFrequency fd \<le> v \<and> validFactorVector (fd\<lparr>stressFrequency := v\<rparr>)
            \<longrightarrow> riskScore fd \<le> riskScore (fd\<lparr>stressFrequency := v\<rparr>))
   \<and> (financialStress fd \<le> v \<and> validFactorVector (fd\<lparr>financialStress := v\<rparr>)
            \<longrightarrow> riskScore fd \<le> riskScore (fd\<lparr>financialStress := v\<rparr>))
   \<and> (substanceUse fd \<le> v \<and> validFactorVector (fd\<lparr>substanceUse := v\<rparr>)
            \<longrightarrow> riskScore fd \<le> riskScore (fd\<lparr>substanceUse := v\<rparr>))
   \<and> (moodChanges fd \<le> v \<and> validFactorVector (fd\<lparr>moodChanges := v\<rparr>)
            \<longrightarrow> riskScore fd \<le> riskScore (fd\<lparr>moodChanges := v\<rparr>))
   \<and> (socialSupport fd \<le> v \<and> validFactorVector (fd\<lparr>socialSupport := v\<rparr>)
            \<longrightarrow> riskScore (fd\<lparr>socialSupport := v\<rparr>) \<le> riskScore fd)
   \<and> (workLifeBalance fd \<le> v \<and> validFactorVector (fd\<lparr>workLifeBalance := v\<rparr>)
            \<longrightarrow> riskScore (fd\<lparr>workLifeBalance := v\<rparr>) \<le> riskScore fd)
   \<and> (physicalActivity fd \<le> v \<and> validFactorVector (fd\<lparr>physicalActivity := v\<rparr>)
            \<longrightarrow> riskScore (fd\<lparr>physicalActivity := v\<rparr>) \<le> riskScore fd)"
  by (simp add: riskScore_def)

theorem riskScore_monotone_witness:
  "validFactorVector
     \<lparr>sleepHours = 7, anxietyLevel = 5, stressFrequency = 5, financialStress = 5,
      socialSupport = 5, workLifeBalance = 5, physicalActivity = 5, substanceUse = 5,
      moodChanges = 5, suicidalThoughts = 5\<rparr>
   \<and> riskScore
     \<lparr>sleepHours = 7, anxietyLevel = 5, stressFrequency = 5, financialStress = 5,
      socialSupport = 5, workLifeBalance = 5, physicalActivity = 5, substanceUse = 5,
      moodChanges = 5, suicidalThoughts = 5\<rparr>
     \<le> riskScore
     \<lparr>sleepHours = 7, anxietyLevel = 5, stressFrequency = 5, financialStress = 5,
      socialSupport = 5, workLifeBalance = 5, physicalActivity = 5, substanceUse = 5,
      moodChanges = 5, suicidalThoughts = 8\<rparr>
   \<and> riskScore
     \<lparr>sleepHours = 7, anxietyLevel = 5, stressFrequency = 5, financialStress = 8,
      socialSupport = 5, workLifeBalance = 5, physicalActivity = 5, substanceUse = 5,
      moodChanges = 5, suicidalThoughts = 5\<rparr>
     \<ge> riskScore
     \<lparr>sleepHours = 7, anxietyLevel = 5, stressFrequency = 5, financialStress = 5,
      socialSupport = 5, workLifeBalance = 5, physicalActivity = 5, substanceUse = 5,
      moodChanges = 5, suicidalThoughts = 5\<rparr>
   \<and> riskScore
     \<lparr>sleepHours = 7, anxietyLevel = 5, stressFrequency = 5, financialStress = 5,
      socialSupport = 5, workLifeBalance = 8, physicalActivity = 5, substanceUse = 5,
      moodChanges = 5, suicidalThoughts = 5\<rparr>
     \<le> riskScore
     \<lparr>sleepHours = 7, anxietyLevel = 5, stressFrequency = 5, financialStress = 5,
      socialSupport = 5, workLifeBalance = 5, physicalActivity = 5, substanceUse = 5,
      moodChanges = 5, suicidalThoughts = 5\<rparr>"
proof -
  let ?fd = "\<lparr>sleepHours = 7, anxietyLevel = 5, stressFrequency = 5, financialStress = 5,
      socialSupport = 5, workLifeBalance = 5, physicalActivity = 5, substanceUse = 5,
      moodChanges = 5, suicidalThoughts = 5\<rparr>"
  have v: "validFactorVector ?fd"
    by (simp add: validFactorVector_def)
  show ?thesis
    using v riskScore_monotone [OF v, of 8] by (simp add: validFactorVector_def)
qed

section \<open>Range of the score and shape of the result\<close>

lemma ten_terms:
  fixes t0 t1 t2 t3 t4 t5 t6 t7 t8 t9 :: real
  assumes "0 \<le> t0 \<and> t0 \<le> 15" "0 \<le> t1 \<and> t1 \<le> 18" "0 \<le> t2 \<and> t2 \<le> 18"
    "0 \<le> t3 \<and> t3 \<le> 27 / 2" "0 \<le> t4 \<and> t4 \<le> 18" "0 \<le> t5 \<and> t5 \<le> 27 / 2"
    "0 \<le> t6 \<and> t6 \<le> 9" "0 \<le> t7 \<and> t7 \<le> 27" "0 \<le> t8 \<and> t8 \<le> 18"
    "0 \<le> t9 \<and> t9 \<le> 45"
  shows "0 \<le> t0 + t1 + t2 + t3 + t4 + t5 + t6 + t7 + t8 + t9
       \<and> t0 + t1 + t2 + t3 + t4 + t5 + t6 + t7 + t8 + t9 \<le> 195"
  using assms by linarith

lemma riskScore_bounds:
  assumes "validFactorVector fd"
  shows "0 \<le> riskScore fd \<and> riskScore fd \<le> 195"
proof -
  define t0 :: real where
    "t0 = (if sleepHours fd < 6 then 15 else if sleepHours fd < 7 then 8
           else if sleepHours fd > 9 then 5 else 0)"
  have b0: "0 \<le> t0 \<and> t0 \<le> 15"
    by (simp add: t0_def)
  have b1: "0 \<le> real_of_int (anxietyLevel fd - 1) * 2
            \<and> real_of_int (anxietyLevel fd - 1) * 2 \<le> 18"
    using assms by (simp add: validFactorVector_def)
  have b2: "0 \<le> real_of_int (stressFrequency fd - 1) * 2
            \<and> real_of_int (stressFrequency fd - 1) * 2 \<le> 18"
    using assms by (simp add: validFactorVector_def)
  have b3: "0 \<le> real_of_int (financialStress fd - 1) * (3 / 2)
            \<and> real_of_int (financialStress fd - 1) * (3 / 2) \<le> 27 / 2"
    using assms by (simp add: validFactorVector_def)
  have b4: "0 \<le> real_of_int (10 - socialSupport fd) * 2
            \<and> real_of_int (10 - socialSupport fd) * 2 \<le> 18"
    using assms by (simp add: validFactorVector_def)
  have b5: "0 \<le> real_of_int (10 - workLifeBalance fd) * (3 / 2)
            \<and> real_of_int (10 - workLifeBalance fd) * (3 / 2) \<le> 27 / 2"
    using assms by (simp add: validFactorVector_def)
  have b6: "0 \<le> real_of_int (10 - physicalActivity fd) * 1
            \<and> real_of_int (10 - physicalActivity fd) * 1 \<le> 9"
    using assms by (simp add: validFactorVector_def)
  have b7: "0 \<le> real_of_int (substanceUse fd - 1) * 3
            \<and> real_of_int (substanceUse fd - 1) * 3 \<le> 27"
    using assms by (simp add: validFactorVector_def)
  have b8: "0 \<le> real_of_int (moodChanges fd - 1) * 2
            \<and> real_of_int (moodChanges fd - 1) * 2 \<le> 18"
    using assms by (simp add: validFactorVector_def)
  have b9: "0 \<le> real_of_int (suicidalThoughts fd - 1) * 5
            \<and> real_of_int (suicidalThoughts fd - 1) * 5 \<le> 45"
    using assms by (simp add: validFactorVector_def)
  have eq: "riskScore fd =
      t0 + real_of_int (anxietyLevel fd - 1) * 2
         + real_of_int (stressFrequency fd - 1) * 2
         + real_of_int (financialStress fd - 1) * (3 / 2)
         + real_of_int (10 - socialSupport fd) * 2
         + real_of_int (10 - workLifeBalance fd) * (3 / 2)
         + real_of_int (10 - physicalActivity fd) * 1
         + real_of_int (substanceUse fd - 1) * 3
         + real_of_int (moodChanges fd - 1) * 2
         + real_of_int (suicidalThoughts fd - 1) * 5"
    by (simp add: riskScore_def Let_def t0_def)
  show ?thesis
    unfolding eq by (rule ten_terms [OF b0 b1 b2 b3 b4 b5 b6 b7 b8 b9])
qed

lemma castPrediction_fallback:
  "castPrediction (asData (generateFallbackPrediction fd now)) now'
     = Some (generateFallbackPrediction fd now)"
  by (simp add: castPrediction_def asData_def generateFallbackPrediction_def Let_def)

text \<open>
  C10. For every valid factor vector the score lies between 0 and 195, and both ends
  are reached, so the range is not 0 to 100. The result fits the persisted schema: the
  classification is one of the three strings of the \<open>enum\<close>, the confidence is 0.85,
  0.78 or 0.82 and so between 0 and 1, the recommendations are not empty (four for Low
  Risk, five for Medium and High Risk), and the schema's validation accepts the result
  as it is.
\<close>

theorem fallback_result_fits_schema:
  assumes "validFactorVector fd"
  shows "0 \<le> riskScore fd \<and> riskScore fd \<le> 195
   \<and> RiskAssessment.prediction (generateFallbackPrediction fd now)
        \<in> {''Low Risk'', ''Medium Risk'', ''High Risk''}
   \<and> confidence (generateFallbackPrediction fd now) \<in> {0.85, 0.78, 0.82}
   \<and> 0 \<le> confidence (generateFallbackPrediction fd now)
   \<and> confidence (generateFallbackPrediction fd now) \<le> 1
   \<and> recommendations (generateFallbackPrediction fd now) \<noteq> []
   \<and> (RiskAssessment.prediction (generateFallbackPrediction fd now) = ''Low Risk''
        \<longrightarrow> length (recommendations (generateFallbackPrediction fd now)) = 4)
   \<and> (RiskAssessment.prediction (generateFallbackPrediction fd now) = ''Medium Risk''
        \<or> RiskAssessment.prediction (generateFallbackPrediction fd now) = ''High Risk''
        \<longrightarrow> length (recommendations (generateFallbackPrediction fd now)) = 5)
   \<and> castPrediction (asData (generateFallbackPrediction fd now)) now'
        = Some (generateFallbackPrediction fd now)
   \<and> validFactorVector
        \<lparr>sleepHours = 5, anxietyLevel = 10, stressFrequency = 10, financialStress = 10,
         socialSupport = 1, workLifeBalance = 1, physicalActivity = 1, substanceUse = 10,
         moodChanges = 10, suicidalThoughts = 10\<rparr>
   \<and> riskScore
        \<lparr>sleepHours = 5, anxietyLevel = 10, stressFrequency = 10, financialStress = 10,
         socialSupport = 1, workLifeBalance = 1, physicalActivity = 1, substanceUse = 10,
         moodChanges = 10, suicidalThoughts = 10\<rparr> = 195
   \<and> validFactorVector
        \<lparr>sleepHours = 8, anxietyLevel = 1, stressFrequency = 1, financialStress = 1,
         socialSupport = 10, workLifeBalance = 10, physicalActivity = 10, substanceUse = 1,
         moodChanges = 1, suicidalThoughts = 1\<rparr>
   \<and> riskScore
        \<lparr>sleepHours = 8, anxietyLevel = 1, stressFrequency = 1, financialStress = 1,
         socialSupport = 10, workLifeBalance = 10, physicalActivity = 10, substanceUse = 1,
         moodChanges = 1, suicidalThoughts = 1\<rparr> = 0"
proof -
  have range: "0 \<le> riskScore fd \<and> riskScore fd \<le> 195"
    using assms by (rule riskScore_bounds)
  have shape: "RiskAssessment.prediction (generateFallbackPrediction fd now)
        \<in> {''Low Risk'', ''Medium Risk'', ''High Risk''}
   \<and> confidence (generateFallbackPrediction fd now) \<in> {0.85, 0.78, 0.82}
   \<and> 0 \<le> confidence (generateFallbackPrediction fd now)
   \<and> confidence (generateFallbackPrediction fd now) \<le> 1
   \<and> recommendations (generateFallbackPrediction fd now) \<noteq> []
   \<and> (RiskAssessment.prediction (generateFallbackPrediction fd now) = ''Low Risk''
        \<longrightarrow> length (recommendations (generateFallbackPrediction fd now)) = 4)
   \<and> (RiskAssessment.prediction (generateFallbackPrediction fd now) = ''Medium Risk''
        \<or> RiskAssessment.prediction (generateFallbackPrediction fd now) = ''High Risk''
        \<longrightarrow> length (recommendations (generateFallbackPrediction fd now)) = 5)"
    by (simp add: generateFallbackPrediction_def Let_def lowRiskRecommendations_def
        mediumRiskRecommendations_def highRiskRecommendations_def)
  have ends: "validFactorVector
        \<lparr>sleepHours = 5, anxietyLevel = 10, stressFrequency = 10, financialStress = 10,
         socialSupport = 1, workLifeBalance = 1, physicalActivity = 1, substanceUse = 10,
         moodChanges = 10, suicidalThoughts = 10\<rparr>
   \<and> riskScore
        \<lparr>sleepHours = 5, anxietyLevel = 10, stressFrequency = 10, financialStress = 10,
         socialSupport = 1, workLifeBalance = 1, physicalActivity = 1, substanceUse = 10,
         moodChanges = 10, suicidalThoughts = 10\<rparr> = 195
   \<and> validFactorVector
        \<lparr>sleepHours = 8, anxietyLevel = 1, stressFrequency = 1, financialStress = 1,
         socialSupport = 10, workLifeBalance = 10, physicalActivity = 10, substanceUse = 1,
         moodChanges = 1, suicidalThoughts = 1\<rparr>
   \<and> riskScore
        \<lparr>sleepHours = 8, anxietyLevel = 1, stressFrequency = 1, financialStress = 1,
         socialSupport = 10, workLifeBalance = 10, physicalActivity = 10, substanceUse = 1,
         moodChanges = 1, suicidalThoughts = 1\<rparr> = 0"
    by (simp add: validFactorVector_def riskScore_def)
  show ?thesis
    using range shape ends castPrediction_fallback [of fd now now'] by blast
qed

theorem fallback_result_fits_schema_witness:
  "validFactorVector
     \<lparr>sleepHours = 5, anxietyLevel = 10, stressFrequency = 10, financialStress = 10,
      socialSupport = 1, workLifeBalance = 1, physicalActivity = 1, substanceUse = 10,
      moodChanges = 10, suicidalThoughts = 10\<rparr>
   \<and> RiskAssessment.prediction (generateFallbackPrediction
     \<lparr>sleepHours = 5, anxietyLevel = 10, stressFrequency = 10, financialStress = 10,
      socialSupport = 1, workLifeBalance = 1, physicalActivity = 1, substanceUse = 10,
      moodChanges = 10, suicidalThoughts = 10\<rparr> 3) = ''High Risk''
   \<and> length (recommendations (generateFallbackPrediction
     \<lparr>sleepHours = 5, anxietyLevel = 10, stressFrequency = 10, financialStress = 10,
      socialSupport = 1, workLifeBalance = 1, physicalActivity = 1, substanceUse = 10,
      moodChanges = 10, suicidalThoughts = 10\<rparr> 3)) = 5
   \<and> RiskAssessment.prediction (generateFallbackPrediction
     \<lparr>sleepHours = 8, anxietyLevel = 1, stressFrequency = 1, financialStress = 1,
      socialSupport = 10, workLifeBalance = 10, physicalActivity = 10, substanceUse = 1,
      moodChanges = 1, suicidalThoughts = 1\<rparr> 3) = ''Low Risk''
   \<and> length (recommendations (generateFallbackPrediction
     \<lparr>sleepHours = 8, anxietyLevel = 1, stressFrequency = 1, financialStress = 1,
      socialSupport = 10, workLifeBalance = 10, physicalActivity = 10, substanceUse = 1,
      moodChanges = 1, suicidalThoughts = 1\<rparr> 3)) = 4"
proof -
  let ?hi = "\<lparr>sleepHours = 5, anxietyLevel = 10, stressFrequency = 10, financialStress = 10,
      socialSupport = 1, workLifeBalance = 1, physicalActivity = 1, substanceUse = 10,
      moodChanges = 10, suicidalThoughts = 10\<rparr>"
  let ?lo = "\<lparr>sleepHours = 8, anxietyLevel = 1, stressFrequency = 1, financialStress = 1,
      socialSupport = 10, workLifeBalance = 10, physicalActivity = 10, substanceUse = 1,
      moodChanges = 1, suicidalThoughts = 1\<rparr>"
  have vhi: "validFactorVector ?hi" and vlo: "validFactorVector ?lo"
    by (simp_all add: validFactorVector_def)
  have phi: "RiskAssessment.prediction (generateFallbackPrediction ?hi 3) = ''High Risk''"
    and plo: "RiskAssessment.prediction (generateFallbackPrediction ?lo 3) = ''Low Risk''"
    by (simp_all add: generateFallbackPrediction_def riskScore_def)
  have "length (recommendations (generateFallbackPrediction ?hi 3)) = 5"
    using fallback_result_fits_schema [OF vhi, of 3 0] phi by blast
  moreover have "length (recommendations (generateFallbackPrediction ?lo 3)) = 4"
    using fallback_result_fits_schema [OF vlo, of 3 0] plo by blast
  ultimately show ?thesis
    using vhi phi plo by blast
qed

section \<open>The trend of the dashboard\<close>

lemma riskLevels_values:
  "riskLevels ''Low Risk'' = Some 1" "riskLevels ''Medium Risk'' = Some 2"
  "riskLevels ''High Risk'' = Some 3"
  by (simp_all add: riskLevels_def)

text \<open>
  C6. The ordinals are Low Risk 1, Medium Risk 2, High Risk 3, and every one of the
  three classifications has one. With fewer than two submissions there is no trend.
  With at least two, newest first, the trend is improving when the ordinal of the newest
  is below that of the one before it, worsening when it is above, stable when they are
  equal.
\<close>

theorem getRiskTrend_contract:
  "riskLevels ''Low Risk'' = Some 1 \<and> riskLevels ''Medium Risk'' = Some 2
   \<and> riskLevels ''High Risk'' = Some 3
   \<and> dom riskLevels = {''Low Risk'', ''Medium Risk'', ''High Risk''}
   \<and> (length h < 2 \<longrightarrow> getRiskTrend h = None)
   \<and> (2 \<le> length h
        \<and> riskLevels (RiskAssessment.prediction (Submission.prediction (h ! 0))) = Some a
        \<and> riskLevels (RiskAssessment.prediction (Submission.prediction (h ! 1))) = Some b
      \<longrightarrow> getRiskTrend h =
            Some (if a < b then ''improving'' else if a > b then ''worsening'' else ''stable''))"
proof -
  have "dom riskLevels = {''Low Risk'', ''Medium Risk'', ''High Risk''}"
    by (auto simp add: riskLevels_def)
  then show ?thesis
    by (simp add: riskLevels_values getRiskTrend_def Let_def)
qed

theorem getRiskTrend_contract_witness:
  "2 \<le> length
     [\<lparr>userId = ''u1'',
      formData = \<lparr>sleepHours = 8, anxietyLevel = 1, stressFrequency = 1, financialStress = 1,
        socialSupport = 10, workLifeBalance = 10, physicalActivity = 10, substanceUse = 1,
        moodChanges = 1, suicidalThoughts = 1\<rparr>,
      prediction = \<lparr>RiskAssessment.prediction = ''Low Risk'', confidence = 0.85,
        recommendations = [], timestamp = 20\<rparr>,
      ipAddress = None, userAgent = None, createdAt = 20\<rparr>,
     \<lparr>userId = ''u1'',
      formData = \<lparr>sleepHours = 8, anxietyLevel = 1, stressFrequency = 1, financialStress = 1,
        socialSupport = 10, workLifeBalance = 10, physicalActivity = 10, substanceUse = 1,
        moodChanges = 1, suicidalThoughts = 1\<rparr>,
      prediction = \<lparr>RiskAssessment.prediction = ''Medium Risk'', confidence = 0.78,
        recommendations = [], timestamp = 10\<rparr>,
      ipAddress = None, userAgent = None, createdAt = 10\<rparr>]
   \<and> riskLevels (RiskAssessment.prediction (Submission.prediction (
     [\<lparr>userId = ''u1'',
      formData = \<lparr>sleepHours = 8, anxietyLevel = 1, stressFrequency = 1, financialStress = 1,
        socialSupport = 10, workLifeBalance = 10, physicalActivity = 10, substanceUse = 1,
        moodChanges = 1, suicidalThoughts = 1\<rparr>,
      prediction = \<lparr>RiskAssessment.prediction = ''Low Risk'', confidence = 0.85,
        recommendations = [], timestamp = 20\<rparr>,
      ipAddress = None, userAgent = None, createdAt = 20\<rparr>,
     \<lparr>userId = ''u1'',
      formData = \<lparr>sleepHours = 8, anxietyLevel = 1, stressFrequency = 1, financialStress = 1,
        socialSupport = 10, workLifeBalance = 10, physicalActivity = 10, substanceUse = 1,
        moodChanges = 1, suicidalThoughts = 1\<rparr>,
      prediction = \<lparr>RiskAssessment.prediction = ''Medium Risk'', confidence = 0.78,
        recommendations = [], timestamp = 10\<rparr>,
      ipAddress = None, userAgent = None, createdAt = 10\<rparr>] ! 0))) = Some 1
   \<and> riskLevels (RiskAssessment.prediction (Submission.prediction (
     [\<lparr>userId = ''u1'',
      formData = \<lparr>sleepHours = 8, anxietyLevel = 1, stressFrequency = 1, financialStress = 1,
        socialSupport = 10, workLifeBalance = 10, physicalActivity = 10, substanceUse = 1,
        moodChanges = 1, suicidalThoughts = 1\<rparr>,
      prediction = \<lparr>RiskAssessment.prediction = ''Low Risk'', confidence = 0.85,
        recommendations = [], timestamp = 20\<rparr>,
      ipAddress = None, userAgent = None, createdAt = 20\<rparr>,
     \<lparr>userId = ''u1'',
      formData = \<lparr>sleepHours = 8, anxietyLevel = 1, stressFrequency = 1, financialStress = 1,
        socialSupport = 10, workLifeBalance = 10, physicalActivity = 10, substanceUse = 1,
        moodChanges = 1, suicidalThoughts = 1\<rparr>,
      prediction = \<lparr>RiskAssessment.prediction = ''Medium Risk'', confidence = 0.78,
        recommendations = [], timestamp = 10\<rparr>,
      ipAddress = None, userAgent = None, createdAt = 10\<rparr>] ! 1))) = Some 2
   \<and> getRiskTrend
     [\<lparr>userId = ''u1'',
      formData = \<lparr>sleepHours = 8, anxietyLevel = 1, stressFrequency = 1, financialStress = 1,
        socialSupport = 10, workLifeBalance = 10, physicalActivity = 10, substanceUse = 1,
        moodChanges = 1, suicidalThoughts = 1\<rparr>,
      prediction = \<lparr>RiskAssessment.prediction = ''Low Risk'', confidence = 0.85,
        recommendations = [], timestamp = 20\<rparr>,
      ipAddress = None, userAgent = None, createdAt = 20\<rparr>,
     \<lparr>userId = ''u1'',
      formData = \<lparr>sleepHours = 8, anxietyLevel = 1, stressFrequency = 1, financialStress = 1,
        socialSupport = 10, workLifeBalance = 10, physicalActivity = 10, substanceUse = 1,
        moodChanges = 1, suicidalThoughts = 1\<rparr>,
      prediction = \<lparr>RiskAssessment.prediction = ''Medium Risk'', confidence = 0.78,
        recommendations = [], timestamp = 10\<rparr>,
      ipAddress = None, userAgent = None, createdAt = 10\<rparr>] = Some ''improving''
   \<and> length
     [\<lparr>userId = ''u1'',
      formData = \<lparr>sleepHours = 8, anxietyLevel = 1, stressFrequency = 1, financialStress = 1,
        socialSupport = 10, workLifeBalance = 10, physicalActivity = 10, substanceUse = 1,
        moodChanges = 1, suicidalThoughts = 1\<rparr>,
      prediction = \<lparr>RiskAssessment.prediction = ''Medium Risk'', confidence = 0.78,
        recommendations = [], timestamp = 20\<rparr>,
      ipAddress = None, userAgent = None, createdAt = 20\<rparr>] < 2
   \<and> getRiskTrend
     [\<lparr>userId = ''u1'',
      formData = \<lparr>sleepHours = 8, anxietyLevel = 1, stressFrequency = 1, financialStress = 1,
        socialSupport = 10, workLifeBalance = 10, physicalActivity = 10, substanceUse = 1,
        moodChanges = 1, suicidalThoughts = 1\<rparr>,
      prediction = \<lparr>RiskAssessment.prediction = ''Medium Risk'', confidence = 0.78,
        recommendations = [], timestamp = 20\<rparr>,
      ipAddress = None, userAgent = None, createdAt = 20\<rparr>] = None"
proof -
  let ?h = "[\<lparr>userId = ''u1'',
      formData = \<lparr>sleepHours = 8, anxietyLevel = 1, stressFrequency = 1, financialStress = 1,
        socialSupport = 10, workLifeBalance = 10, physicalActivity = 10, substanceUse = 1,
        moodChanges = 1, suicidalThoughts = 1\<rparr>,
      prediction = \<lparr>RiskAssessment.prediction = ''Low Risk'', confidence = 0.85,
        recommendations = [], timestamp = 20\<rparr>,
      ipAddress = None, userAgent = None, createdAt = 20\<rparr>,
     \<lparr>userId = ''u1'',
      formData = \<lparr>sleepHours = 8, anxietyLevel = 1, stressFrequency = 1, financialStress = 1,
        socialSupport = 10, workLifeBalance = 10, physicalActivity = 10, substanceUse = 1,
        moodChanges = 1, suicidalThoughts = 1\<rparr>,
      prediction = \<lparr>RiskAssessment.prediction = ''Medium Risk'', confidence = 0.78,
        recommendations = [], timestamp = 10\<rparr>,
      ipAddress = None, userAgent = None, createdAt = 10\<rparr>]"
  let ?one = "[\<lparr>userId = ''u1'',
      formData = \<lparr>sleepHours = 8, anxietyLevel = 1, stressFrequency = 1, financialStress = 1,
        socialSupport = 10, workLifeBalance = 10, physicalActivity = 10, substanceUse = 1,
        moodChanges = 1, suicidalThoughts = 1\<rparr>,
      prediction = \<lparr>RiskAssessment.prediction = ''Medium Risk'', confidence = 0.78,
        recommendations = [], timestamp = 20\<rparr>,
      ipAddress = None, userAgent = None, createdAt = 20\<rparr>]"
  have len: "2 \<le> length ?h" and len1: "length ?one < 2"
    by simp_all
  have l0: "riskLevels (RiskAssessment.prediction (Submission.prediction (?h ! 0))) = Some 1"
    and l1: "riskLevels (RiskAssessment.prediction (Submission.prediction (?h ! 1))) = Some 2"
    by (simp_all add: riskLevels_values)
  have "getRiskTrend ?h = Some ''improving''"
    using getRiskTrend_contract [of ?h 1 2] len l0 l1 by simp
  moreover have "getRiskTrend ?one = None"
    using getRiskTrend_contract [of ?one 1 2] len1 by blast
  ultimately show ?thesis
    using len len1 l0 l1 by blast
qed

text \<open>
  C7, as the specification words it, has the first two trends the wrong way round: on
  the history Low Risk, Medium Risk, newest first, the dashboard answers improving, not
  worsening.
\<close>

theorem getRiskTrend_low_then_medium_counterexample:
  "getRiskTrend
     [\<lparr>userId = ''u1'',
      formData = \<lparr>sleepHours = 8, anxietyLevel = 1, stressFrequency = 1, financialStress = 1,
        socialSupport = 10, workLifeBalance = 10, physicalActivity = 10, substanceUse = 1,
        moodChanges = 1, suicidalThoughts = 1\<rparr>,
      prediction = \<lparr>RiskAssessment.prediction = ''Low Risk'', confidence = 0.85,
        recommendations = [], timestamp = 20\<rparr>,
      ipAddress = None, userAgent = None, createdAt = 20\<rparr>,
     \<lparr>userId = ''u1'',
      formData = \<lparr>sleepHours = 8, anxietyLevel = 1, stressFrequency = 1, financialStress = 1,
        socialSupport = 10, workLifeBalance = 10, physicalActivity = 10, substanceUse = 1,
        moodChanges = 1, suicidalThoughts = 1\<rparr>,
      prediction = \<lparr>RiskAssessment.prediction = ''Medium Risk'', confidence = 0.78,
        recommendations = [], timestamp = 10\<rparr>,
      ipAddress = None, userAgent = None, createdAt = 10\<rparr>] \<noteq> Some ''worsening''"
  by (simp add: getRiskTrend_def Let_def riskLevels_values)

text \<open>
  C7, amended. Newest first: Low Risk, Medium Risk gives improving; High Risk, Medium
  Risk gives worsening; Medium Risk, Medium Risk gives stable; a single submission gives
  no trend.
\<close>

theorem getRiskTrend_examples:
  "(RiskAssessment.prediction (Submission.prediction x) = ''Low Risk''
      \<and> RiskAssessment.prediction (Submission.prediction y) = ''Medium Risk''
      \<longrightarrow> getRiskTrend [x, y] = Some ''improving'')
   \<and> (RiskAssessment.prediction (Submission.prediction x) = ''High Risk''
      \<and> RiskAssessment.prediction (Submission.prediction y) = ''Medium Risk''
      \<longrightarrow> getRiskTrend [x, y] = Some ''worsening'')
   \<and> (RiskAssessment.prediction (Submission.prediction x) = ''Medium Risk''
      \<and> RiskAssessment.prediction (Submission.prediction y) = ''Medium Risk''
      \<longrightarrow> getRiskTrend [x, y] = Some ''stable'')
   \<and> getRiskTrend [x] = None"
  by (simp add: getRiskTrend_def Let_def riskLevels_values)

theorem getRiskTrend_examples_witness:
  "getRiskTrend
     [\<lparr>userId = ''u1'',
      formData = \<lparr>sleepHours = 8, anxietyLevel = 1, stressFrequency = 1, financialStress = 1,
        socialSupport = 10, workLifeBalance = 10, physicalActivity = 10, substanceUse = 1,
        moodChanges = 1, suicidalThoughts = 1\<rparr>,
      prediction = \<lparr>RiskAssessment.prediction = ''Low Risk'', confidence = 0.85,
        recommendations = [], timestamp = 20\<rparr>,
      ipAddress = None, userAgent = None, createdAt = 20\<rparr>,
     \<lparr>userId = ''u1'',
      formData = \<lparr>sleepHours = 8, anxietyLevel = 1, stressFrequency = 1, financialStress = 1,
        socialSupport = 10, workLifeBalance = 10, physicalActivity = 10, substanceUse = 1,
        moodChanges = 1, suicidalThoughts = 1\<rparr>,
      prediction = \<lparr>RiskAssessment.prediction = ''Medium Risk'', confidence = 0.78,
        recommendations = [], timestamp = 10\<rparr>,
      ipAddress = None, userAgent = None, createdAt = 10\<rparr>] = Some ''improving''
   \<and> getRiskTrend
     [\<lparr>userId = ''u1'',
      formData = \<lparr>sleepHours = 8, anxietyLevel = 1, stressFrequency = 1, financialStress = 1,
        socialSupport = 10, workLifeBalance = 10, physicalActivity = 10, substanceUse = 1,
        moodChanges = 1, suicidalThoughts = 1\<rparr>,
      prediction = \<lparr>RiskAssessment.prediction = ''High Risk'', confidence = 0.82,
        recommendations = [], timestamp = 20\<rparr>,
      ipAddress = None, userAgent = None, createdAt = 20\<rparr>,
     \<lparr>userId = ''u1'',
      formData = \<lparr>sleepHours = 8, anxietyLevel = 1, stressFrequency = 1, financialStress = 1,
        socialSupport = 10, workLifeBalance = 10, physicalActivity = 10, substanceUse = 1,
        moodChanges = 1, suicidalThoughts = 1\<rparr>,
      prediction = \<lparr>RiskAssessment.prediction = ''Medium Risk'', confidence = 0.78,
        recommendations = [], timestamp = 10\<rparr>,
      ipAddress = None, userAgent = None, createdAt = 10\<rparr>] = Some ''worsening''
   \<and> getRiskTrend
     [\<lparr>userId = ''u1'',
      formData = \<lparr>sleepHours = 8, anxietyLevel = 1, stressFrequency = 1, financialStress = 1,
        socialSupport = 10, workLifeBalance = 10, physicalActivity = 10, substanceUse = 1,
        moodChanges = 1, suicidalThoughts = 1\<rparr>,
      prediction = \<lparr>RiskAssessment.prediction = ''Medium Risk'', confidence = 0.78,
        recommendations = [], timestamp = 20\<rparr>,
      ipAddress = None, userAgent = None, createdAt = 20\<rparr>,
     \<lparr>userId = ''u1'',
      formData = \<lparr>sleepHours = 8, anxietyLevel = 1, stressFrequency = 1, financialStress = 1,
        socialSupport = 10, workLifeBalance = 10, physicalActivity = 10, substanceUse = 1,
        moodChanges = 1, suicidalThoughts = 1\<rparr>,
      prediction = \<lparr>RiskAssessment.prediction = ''Medium Risk'', confidence = 0.78,
        recommendations = [], timestamp = 10\<rparr>,
      ipAddress = None, userAgent = None, createdAt = 10\<rparr>] = Some ''stable''
   \<and> getRiskTrend
     [\<lparr>userId = ''u1'',
      formData = \<lparr>sleepHours = 8, anxietyLevel = 1, stressFrequency = 1, financialStress = 1,
        socialSupport = 10, workLifeBalance = 10, physicalActivity = 10, substanceUse = 1,
        moodChanges = 1, suicidalThoughts = 1\<rparr>,
      prediction = \<lparr>RiskAssessment.prediction = ''Medium Risk'', confidence = 0.78,
        recommendations = [], timestamp = 20\<rparr>,
      ipAddress = None, userAgent = None, createdAt = 20\<rparr>] = None"
proof -
  have "getRiskTrend
     [\<lparr>userId = ''u1'',
      formData = \<lparr>sleepHours = 8, anxietyLevel = 1, stressFrequency = 1, financialStress = 1,
        socialSupport = 10, workLifeBalance = 10, physicalActivity = 10, substanceUse = 1,
        moodChanges = 1, suicidalThoughts = 1\<rparr>,
      prediction = \<lparr>RiskAssessment.prediction = ''Low Risk'', confidence = 0.85,
        recommendations = [], timestamp = 20\<rparr>,
      ipAddress = None, userAgent = None, createdAt = 20\<rparr>,
     \<lparr>userId = ''u1'',
      formData = \<lparr>sleepHours = 8, anxietyLevel = 1, stressFrequency = 1, financialStress = 1,
        socialSupport = 10, workLifeBalance = 10, physicalActivity = 10, substanceUse = 1,
        moodChanges = 1, suicidalThoughts = 1\<rparr>,
      prediction = \<lparr>RiskAssessment.prediction = ''Medium Risk'', confidence = 0.78,
        recommendations = [], timestamp = 10\<rparr>,
      ipAddress = None, userAgent = None, createdAt = 10\<rparr>] = Some ''improving''"
    using getRiskTrend_examples
      [of "[\<lparr>userId = ''u1'',
      formData = \<lparr>sleepHours = 8, anxietyLevel = 1, stressFrequency = 1, financialStress = 1,
        socialSupport = 10, workLifeBalance = 10, physicalActivity = 10, substanceUse = 1,
        moodChanges = 1, suicidalThoughts = 1\<rparr>,
      prediction = \<lparr>RiskAssessment.prediction = ''Low Risk'', confidence = 0.85,
        recommendations = [], timestamp = 20\<rparr>,
      ipAddress = None, userAgent = None, createdAt = 20\<rparr>,
     \<lparr>userId = ''u1'',
      formData = \<lparr>sleepHours = 8, anxietyLevel = 1, stressFrequency = 1, financialStress = 1,
        socialSupport = 10, workLifeBalance = 10, physicalActivity = 10, substanceUse = 1,
        moodChanges = 1, suicidalThoughts = 1\<rparr>,
      prediction = \<lparr>RiskAssessment.prediction = ''Medium Risk'', confidence = 0.78,
        recommendations = [], timestamp = 10\<rparr>,
      ipAddress = None, userAgent = None, createdAt = 10\<rparr>] ! 0"
          "[\<lparr>userId = ''u1'',
      formData = \<lparr>sleepHours = 8, anxietyLevel = 1, stressFrequency = 1, financialStress = 1,
        socialSupport = 10, workLifeBalance = 10, physicalActivity = 10, substanceUse = 1,
        moodChanges = 1, suicidalThoughts = 1\<rparr>,
      prediction = \<lparr>RiskAssessment.prediction = ''Low Risk'', confidence = 0.85,
        recommendations = [], timestamp = 20\<rparr>,
      ipAddress = None, userAgent = None, createdAt = 20\<rparr>,
     \<lparr>userId = ''u1'',
      formData = \<lparr>sleepHours = 8, anxietyLevel = 1, stressFrequency = 1, financialStress = 1,
        socialSupport = 10, workLifeBalance = 10, physicalActivity = 10, substanceUse = 1,
        moodChanges = 1, suicidalThoughts = 1\<rparr>,
      prediction = \<lparr>RiskAssessment.prediction = ''Medium Risk'', confidence = 0.78,
        recommendations = [], timestamp = 10\<rparr>,
      ipAddress = None, userAgent = None, createdAt = 10\<rparr>] ! 1"]
    by simp
  moreover have "getRiskTrend
     [\<lparr>userId = ''u1'',
      formData = \<lparr>sleepHours = 8, anxietyLevel = 1, stressFrequency = 1, financialStress = 1,
        socialSupport = 10, workLifeBalance = 10, physicalActivity = 10, substanceUse = 1,
        moodChanges = 1, suicidalThoughts = 1\<rparr>,
      prediction = \<lparr>RiskAssessment.prediction = ''High Risk'', confidence = 0.82,
        recommendations = [], timestamp = 20\<rparr>,
      ipAddress = None, userAgent = None, createdAt = 20\<rparr>,
     \<lparr>userId = ''u1'',
      formData = \<lparr>sleepHours = 8, anxietyLevel = 1, stressFrequency = 1, financialStress = 1,
        socialSupport = 10, workLifeBalance = 10, physicalActivity = 10, substanceUse = 1,
        moodChanges = 1, suicidalThoughts = 1\<rparr>,
      prediction = \<lparr>RiskAssessment.prediction = ''Medium Risk'', confidence = 0.78,
        recommendations = [], timestamp = 10\<rparr>,
      ipAddress = None, userAgent = None, createdAt = 10\<rparr>] = Some ''worsening''"
    using getRiskTrend_examples
      [of "[\<lparr>userId = ''u1'',
      formData = \<lparr>sleepHours = 8, anxietyLevel = 1, stressFrequency = 1, financialStress = 1,
        socialSupport = 10, workLifeBalance = 10, physicalActivity = 10, substanceUse = 1,
        moodChanges = 1, suicidalThoughts = 1\<rparr>,
      prediction = \<lparr>RiskAssessment.prediction = ''High Risk'', confidence = 0.82,
        recommendations = [], timestamp = 20\<rparr>,
      ipAddress = None, userAgent = None, createdAt = 20\<rparr>,
     \<lparr>userId = ''u1'',
      formData = \<lparr>sleepHours = 8, anxietyLevel = 1, stressFrequency = 1, financialStress = 1,
        socialSupport = 10, workLifeBalance = 10, physicalActivity = 10, substanceUse = 1,
        moodChanges = 1, suicidalThoughts = 1\<rparr>,
      prediction = \<lparr>RiskAssessment.prediction = ''Medium Risk'', confidence = 0.78,
        recommendations = [], timestamp = 10\<rparr>,
      ipAddress = None, userAgent = None, createdAt = 10\<rparr>] ! 0"
          "[\<lparr>userId = ''u1'',
      formData = \<lparr>sleepHours = 8, anxietyLevel = 1, stressFrequency = 1, financialStress = 1,
        socialSupport = 10, workLifeBalance = 10, physicalActivity = 10, substanceUse = 1,
        moodChanges = 1, suicidalThoughts = 1\<rparr>,
      prediction = \<lparr>RiskAssessment.prediction = ''High Risk'', confidence = 0.82,
        recommendations = [], timestamp = 20\<rparr>,
      ipAddress = None, userAgent = None, createdAt = 20\<rparr>,
     \<lparr>userId = ''u1'',
      formData = \<lparr>sleepHours = 8, anxietyLevel = 1, stressFrequency = 1, financialStress = 1,
        socialSupport = 10, workLifeBalance = 10, physicalActivity = 10, substanceUse = 1,
        moodChanges = 1, suicidalThoughts = 1\<rparr>,
      prediction = \<lparr>RiskAssessment.prediction = ''Medium Risk'', confidence = 0.78,
        recommendations = [], timestamp = 10\<rparr>,
      ipAddress = None, userAgent = None, createdAt = 10\<rparr>] ! 1"]
    by simp
  moreover have "getRiskTrend
     [\<lparr>userId = ''u1'',
      formData = \<lparr>sleepHours = 8, anxietyLevel = 1, stressFrequency = 1, financialStress = 1,
        socialSupport = 10, workLifeBalance = 10, physicalActivity = 10, substanceUse = 1,
        moodChanges = 1, suicidalThoughts = 1\<rparr>,
      prediction = \<lparr>RiskAssessment.prediction = ''Medium Risk'', confidence = 0.78,
        recommendations = [], timestamp = 20\<rparr>,
      ipAddress = None, userAgent = None, createdAt = 20\<rparr>,
     \<lparr>userId = ''u1'',
      formData = \<lparr>sleepHours = 8, anxietyLevel = 1, stressFrequency = 1, financialStress = 1,
        socialSupport = 10, workLifeBalance = 10, physicalActivity = 10, substanceUse = 1,
        moodChanges = 1, suicidalThoughts = 1\<rparr>,
      prediction = \<lparr>RiskAssessment.prediction = ''Medium Risk'', confidence = 0.78,
        recommendations = [], timestamp = 10\<rparr>,
      ipAddress = None, userAgent = None, createdAt = 10\<rparr>] = Some ''stable''"
    using getRiskTrend_examples
      [of "[\<lparr>userId = ''u1'',
      formData = \<lparr>sleepHours = 8, anxietyLevel = 1, stressFrequency = 1, financialStress = 1,
        socialSupport = 10, workLifeBalance = 10, physicalActivity = 10, substanceUse = 1,
        moodChanges = 1, suicidalThoughts = 1\<rparr>,
      prediction = \<lparr>RiskAssessment.prediction = ''Medium Risk'', confidence = 0.78,
        recommendations = [], timestamp = 20\<rparr>,
      ipAddress = None, userAgent = None, createdAt = 20\<rparr>,
     \<lparr>userId = ''u1'',
      formData = \<lparr>sleepHours = 8, anxietyLevel = 1, stressFrequency = 1, financialStress = 1,
        socialSupport = 10, workLifeBalance = 10, physicalActivity = 10, substanceUse = 1,
        moodChanges = 1, suicidalThoughts = 1\<rparr>,
      prediction = \<lparr>RiskAssessment.prediction = ''Medium Risk'', confidence = 0.78,
        recommendations = [], timestamp = 10\<rparr>,
      ipAddress = None, userAgent = None, createdAt = 10\<rparr>] ! 0"
          "[\<lparr>userId = ''u1'',
      formData = \<lparr>sleepHours = 8, anxietyLevel = 1, stressFrequency = 1, financialStress = 1,
        socialSupport = 10, workLifeBalance = 10, physicalActivity = 10, substanceUse = 1,
        moodChanges = 1, suicidalThoughts = 1\<rparr>,
      prediction = \<lparr>RiskAssessment.prediction = ''Medium Risk'', confidence = 0.78,
        recommendations = [], timestamp = 20\<rparr>,
      ipAddress = None, userAgent = None, createdAt = 20\<rparr>,
     \<lparr>userId = ''u1'',
      formData = \<lparr>sleepHours = 8, anxietyLevel = 1, stressFrequency = 1, financialStress = 1,
        socialSupport = 10, workLifeBalance = 10, physicalActivity = 10, substanceUse = 1,
        moodChanges = 1, suicidalThoughts = 1\<rparr>,
      prediction = \<lparr>RiskAssessment.prediction = ''Medium Risk'', confidence = 0.78,
        recommendations = [], timestamp = 10\<rparr>,
      ipAddress = None, userAgent = None, createdAt = 10\<rparr>] ! 1"]
    by simp
  moreover have "getRiskTrend
     [\<lparr>userId = ''u1'',
      formData = \<lparr>sleepHours = 8, anxietyLevel = 1, stressFrequency = 1, financialStress = 1,
        socialSupport = 10, workLifeBalance = 10, physicalActivity = 10, substanceUse = 1,
        moodChanges = 1, suicidalThoughts = 1\<rparr>,
      prediction = \<lparr>RiskAssessment.prediction = ''Medium Risk'', confidence = 0.78,
        recommendations = [], timestamp = 20\<rparr>,
      ipAddress = None, userAgent = None, createdAt = 20\<rparr>] = None"
    using getRiskTrend_examples
      [of "[\<lparr>userId = ''u1'',
      formData = \<lparr>sleepHours = 8, anxietyLevel = 1, stressFrequency = 1, financialStress = 1,
        socialSupport = 10, workLifeBalance = 10, physicalActivity = 10, substanceUse = 1,
        moodChanges = 1, suicidalThoughts = 1\<rparr>,
      prediction = \<lparr>RiskAssessment.prediction = ''Medium Risk'', confidence = 0.78,
        recommendations = [], timestamp = 20\<rparr>,
      ipAddress = None, userAgent = None, createdAt = 20\<rparr>] ! 0"
          "[\<lparr>userId = ''u1'',
      formData = \<lparr>sleepHours = 8, anxietyLevel = 1, stressFrequency = 1, financialStress = 1,
        socialSupport = 10, workLifeBalance = 10, physicalActivity = 10, substanceUse = 1,
        moodChanges = 1, suicidalThoughts = 1\<rparr>,
      prediction = \<lparr>RiskAssessment.prediction = ''Medium Risk'', confidence = 0.78,
        recommendations = [], timestamp = 20\<rparr>,
      ipAddress = None, userAgent = None, createdAt = 20\<rparr>] ! 0"]
    by simp
  ultimately show ?thesis
    by blast
qed

section \<open>Validation of a submission\<close>

text \<open>
  Every chain that fails adds its error, so the errors name exactly the declared fields
  whose value fails \<open>isInt\<close>, once each and in the order of the table; a request
  with an error is answered with status 400 and the list, and nothing else happens.
  Among the values \<open>isInt\<close> refuses are an absent field, \<open>null\<close>, a boolean, an
  object, the empty array, a number that is not integral and an integer out of range.
\<close>

lemma runValidation_fields:
  "map param (runValidation rs b)
     = map field (filter (\<lambda>r. \<not> isInt (minimum r) (maximum r) (b (field r))) rs)"
  by (induction rs) auto

lemma submit_rejected:
  assumes "validationResult (body req) \<noteq> []"
  shows "submit req ml now w = (ValidationFailed (validationResult (body req)), w)"
  using assms by (simp add: submit_def Let_def)

lemma isInt_refuses:
  "\<not> isInt lo hi None" "\<not> isInt lo hi (Some JNull)" "\<not> isInt lo hi (Some (JBool t))"
  "\<not> isInt lo hi (Some (JObj fs))" "\<not> isInt lo hi (Some (JArr []))"
  "r \<noteq> of_int \<lfloor>r\<rfloor> \<Longrightarrow> \<not> isInt lo hi (Some (JNum r))"
  "k < lo \<or> hi < k \<Longrightarrow> \<not> isInt lo hi (Some (JNum (of_int k)))"
  by (auto simp add: isInt_def written_def)







lemma castFormData_array:
  assumes "b ''sleepHours'' = Some (JArr es)"
  shows "castFormData b = None"
  using assms by (simp add: castFormData_def)

lemma submit_uncastable:
  assumes "validationResult (body req) = []" and "castFormData (body req) = None"
  shows "fst (submit req ml now w) = ServerError ''Server error during assessment submission''
         \<and> submissions (snd (submit req ml now w)) = submissions w"
proof -
  have refused: "save uid (body req) p ipA ua now v = None" for uid p ipA ua v
    using assms(2) by (simp add: save_def split: option.split)
  show ?thesis
    by (cases ml) (simp_all add: submit_def Let_def assms(1) refused)
qed

text \<open>
  C8. The chains are there to refuse every field that is not an integer of its range,
  and the schema declares each field a number. But an array is tested by its first
  element alone: the body in which \<open>sleepHours\<close> is the array \<open>[5]\<close> and the other
  nine fields are valid passes all ten chains. No list of violations is returned; the
  request goes on to the predictor, the schema refuses the array at \<open>save\<close>, and the
  caller gets status 500 whatever the predictor answered. Nothing is stored.
\<close>

theorem array_field_passes_validation:
  "validationResult (body
       \<lparr>user = ''u1'',
        body = [''sleepHours'' \<mapsto> JArr [JNum 5], ''anxietyLevel'' \<mapsto> JNum 8,
          ''stressFrequency'' \<mapsto> JNum 7, ''financialStress'' \<mapsto> JNum 6,
          ''socialSupport'' \<mapsto> JNum 3, ''workLifeBalance'' \<mapsto> JNum 4,
          ''physicalActivity'' \<mapsto> JNum 3, ''substanceUse'' \<mapsto> JNum 2,
          ''moodChanges'' \<mapsto> JNum 6, ''suicidalThoughts'' \<mapsto> JNum 1],
        ip = None, userAgentHeader = None\<rparr>) = []
   \<and> fst (submit
       \<lparr>user = ''u1'',
        body = [''sleepHours'' \<mapsto> JArr [JNum 5], ''anxietyLevel'' \<mapsto> JNum 8,
          ''stressFrequency'' \<mapsto> JNum 7, ''financialStress'' \<mapsto> JNum 6,
          ''socialSupport'' \<mapsto> JNum 3, ''workLifeBalance'' \<mapsto> JNum 4,
          ''physicalActivity'' \<mapsto> JNum 3, ''substanceUse'' \<mapsto> JNum 2,
          ''moodChanges'' \<mapsto> JNum 6, ''suicidalThoughts'' \<mapsto> JNum 1],
        ip = None, userAgentHeader = None\<rparr>
       ml now w) = ServerError ''Server error during assessment submission''
   \<and> status (fst (submit
       \<lparr>user = ''u1'',
        body = [''sleepHours'' \<mapsto> JArr [JNum 5], ''anxietyLevel'' \<mapsto> JNum 8,
          ''stressFrequency'' \<mapsto> JNum 7, ''financialStress'' \<mapsto> JNum 6,
          ''socialSupport'' \<mapsto> JNum 3, ''workLifeBalance'' \<mapsto> JNum 4,
          ''physicalActivity'' \<mapsto> JNum 3, ''substanceUse'' \<mapsto> JNum 2,
          ''moodChanges'' \<mapsto> JNum 6, ''suicidalThoughts'' \<mapsto> JNum 1],
        ip = None, userAgentHeader = None\<rparr>
       ml now w)) = 500
   \<and> submissions (snd (submit
       \<lparr>user = ''u1'',
        body = [''sleepHours'' \<mapsto> JArr [JNum 5], ''anxietyLevel'' \<mapsto> JNum 8,
          ''stressFrequency'' \<mapsto> JNum 7, ''financialStress'' \<mapsto> JNum 6,
          ''socialSupport'' \<mapsto> JNum 3, ''workLifeBalance'' \<mapsto> JNum 4,
          ''physicalActivity'' \<mapsto> JNum 3, ''substanceUse'' \<mapsto> JNum 2,
          ''moodChanges'' \<mapsto> JNum 6, ''suicidalThoughts'' \<mapsto> JNum 1],
        ip = None, userAgentHeader = None\<rparr>
       ml now w)) = submissions w"
proof -
  let ?req = "\<lparr>user = ''u1'',
        body = [''sleepHours'' \<mapsto> JArr [JNum 5], ''anxietyLevel'' \<mapsto> JNum 8,
          ''stressFrequency'' \<mapsto> JNum 7, ''financialStress'' \<mapsto> JNum 6,
          ''socialSupport'' \<mapsto> JNum 3, ''workLifeBalance'' \<mapsto> JNum 4,
          ''physicalActivity'' \<mapsto> JNum 3, ''substanceUse'' \<mapsto> JNum 2,
          ''moodChanges'' \<mapsto> JNum 6, ''suicidalThoughts'' \<mapsto> JNum 1],
        ip = None, userAgentHeader = None\<rparr>"
  have ok: "validationResult (body ?req) = []"
    by (simp add: validationResult_def assessmentValidation_def isInt_def written_def)
  have "castFormData (body ?req) = None"
    by (rule castFormData_array [of _ "[JNum 5]"]) simp
  with ok have "fst (submit ?req ml now w) = ServerError ''Server error during assessment submission''
        \<and> submissions (snd (submit ?req ml now w)) = submissions w"
    by (rule submit_uncastable)
  then show ?thesis
    using ok by simp
qed

section \<open>Failure of the predictor\<close>





section \<open>History pages\<close>

lemma sortByCreatedAtDesc_mset: "mset (sortByCreatedAtDesc ss) = mset ss"
  by (simp add: sortByCreatedAtDesc_def)

lemma sortByCreatedAtDesc_length: "length (sortByCreatedAtDesc ss) = length ss"
  by (simp add: sortByCreatedAtDesc_def)

lemma sortByCreatedAtDesc_descending:
  assumes "i < j" "j < length (sortByCreatedAtDesc ss)"
  shows "createdAt (sortByCreatedAtDesc ss ! j) \<le> createdAt (sortByCreatedAtDesc ss ! i)"
proof -
  let ?k = "\<lambda>s. - int (createdAt s)"
  let ?o = "sortByCreatedAtDesc ss"
  have "sorted (map ?k ?o)"
    by (simp add: sortByCreatedAtDesc_def)
  then have "map ?k ?o ! i \<le> map ?k ?o ! j"
    using assms by (simp add: sorted_iff_nth_mono del: nth_map)
  then show ?thesis
    using assms by simp
qed

lemma sortByCreatedAtDesc_strict:
  assumes "distinct (map createdAt ss)" "i < j" "j < length (sortByCreatedAtDesc ss)"
  shows "createdAt (sortByCreatedAtDesc ss ! j) < createdAt (sortByCreatedAtDesc ss ! i)"
proof -
  let ?o = "sortByCreatedAtDesc ss"
  have "mset (map createdAt ?o) = mset (map createdAt ss)"
    by (simp add: sortByCreatedAtDesc_mset)
  then have "distinct (map createdAt ?o)"
    using assms(1) by (metis mset_eq_imp_distinct_iff)
  then have "map createdAt ?o ! i \<noteq> map createdAt ?o ! j"
    using assms(2,3) by (simp add: nth_eq_iff_index_eq del: nth_map)
  then have "createdAt (?o ! j) \<noteq> createdAt (?o ! i)"
    using assms(2,3) by simp
  with sortByCreatedAtDesc_descending [OF assms(2,3)] show ?thesis
    by simp
qed

lemma take_drop_nths:
  assumes "k + n \<le> length xs"
  shows "take n (drop k xs) = map ((!) xs) [k..<k + n]"
  using assms by (intro nth_equalityI) simp_all

lemma ceiling_bounds:
  fixes t n :: int
  assumes "1 \<le> n"
  shows "(\<lceil>real_of_int t / real_of_int n\<rceil> - 1) * n < t
         \<and> t \<le> \<lceil>real_of_int t / real_of_int n\<rceil> * n"
proof -
  let ?c = "\<lceil>real_of_int t / real_of_int n\<rceil>"
  have n: "0 < real_of_int n" using assms by simp
  have "real_of_int t / real_of_int n \<le> of_int ?c"
    by (rule le_of_int_ceiling)
  then have "real_of_int t \<le> of_int ?c * of_int n"
    using n by (simp only: pos_divide_le_eq)
  then have "real_of_int t \<le> real_of_int (?c * n)"
    by simp
  then have up: "t \<le> ?c * n"
    by (simp only: of_int_le_iff)
  have "of_int ?c - 1 < real_of_int t / real_of_int n"
    by linarith
  then have "(of_int ?c - 1) * real_of_int n < real_of_int t"
    using n by (simp only: pos_less_divide_eq)
  then have "real_of_int ((?c - 1) * n) < real_of_int t"
    by simp
  then have "(?c - 1) * n < t"
    by (simp only: of_int_less_iff)
  with up show ?thesis by simp
qed

lemma history_unfold:
  assumes "parsedPage = Some p \<and> 1 \<le> p \<or> parsedPage \<in> {None, Some 0} \<and> p = 1"
    and "parsedLimit = Some n \<and> 1 \<le> n \<or> parsedLimit \<in> {None, Some 0} \<and> n = 10"
  shows "history uid parsedPage parsedLimit w =
     HistoryPage
       (map withoutProvenance
          (take (nat n) (drop (nat ((p - 1) * n))
             (sortByCreatedAtDesc (filter (\<lambda>s. userId s = uid) (submissions w))))))
       \<lparr>page = p, limit = n,
        total = int (length (filter (\<lambda>s. userId s = uid) (submissions w))),
        pages = \<lceil>real_of_int (int (length (filter (\<lambda>s. userId s = uid) (submissions w))))
                 / real_of_int n\<rceil>\<rparr>"
proof -
  have p: "orDefault parsedPage 1 = p" and p1: "1 \<le> p"
    using assms(1) by (auto simp: orDefault_def)
  have n: "orDefault parsedLimit 10 = n" and n1: "1 \<le> n"
    using assms(2) by (auto simp: orDefault_def)
  have skip: "\<not> (p - 1) * n < 0"
    using p1 n1 by (simp add: mult_less_0_iff)
  show ?thesis
    using n1
    by (simp add: history_def p n findForUser_def countDocuments_def Let_def skip)
qed

lemma insort_key_last:
  assumes "\<forall>y \<in> set ys. k y < k x"
  shows "insort_key k x ys = ys @ [x]"
  using assms by (induction ys) auto

lemma sortByCreatedAtDesc_chronological:
  assumes "sorted_wrt (<) (map createdAt ss)"
  shows "sortByCreatedAtDesc ss = rev ss"
  using assms
proof (induction ss)
  case Nil
  show ?case by (simp add: sortByCreatedAtDesc_def)
next
  case (Cons s ss)
  then have tail: "sort_key (\<lambda>s. - int (createdAt s)) ss = rev ss"
    by (simp add: sortByCreatedAtDesc_def)
  have "\<forall>y \<in> set (rev ss). - int (createdAt y) < - int (createdAt s)"
    using Cons.prems by auto
  then show ?case
    by (simp add: sortByCreatedAtDesc_def tail insort_key_last)
qed

text \<open>
  C9, as the specification words it, is about every query. A negative page is passed on
  to the database as a negative \<open>skip\<close>, which the database refuses: page -1 is
  answered with status 500 and no page at all.
\<close>

theorem history_negative_page_counterexample:
  "history ''u1'' (Some (- 1)) (Some 10)
     \<lparr>submissions =
       [\<lparr>userId = ''u1'', formData = \<lparr>sleepHours = 8, anxietyLevel = 1, stressFrequency = 1,
          financialStress = 1, socialSupport = 10, workLifeBalance = 10, physicalActivity = 10,
          substanceUse = 1, moodChanges = 1, suicidalThoughts = 1\<rparr>,
        prediction = \<lparr>RiskAssessment.prediction = ''Low Risk'', confidence = 0.85,
          recommendations = lowRiskRecommendations, timestamp = 10\<rparr>,
        ipAddress = Some ''10.0.0.1'', userAgent = None, createdAt = 10\<rparr>],
      assessmentCount = Map.empty, mlRequests = [], console = []\<rparr>
   = ServerError ''Server error fetching assessment history''"
  by (simp add: history_def orDefault_def findForUser_def)

text \<open>
  C9, amended. The page \<open>p\<close> is the parsed parameter when it is at least 1, and 1
  when the parameter is absent, not a number or 0; the page size \<open>n\<close> likewise, with
  10 in place of 1. For a user with \<open>t\<close> stored submissions the page holds the
  submissions at offsets \<open>(p - 1) * n\<close> to \<open>(p - 1) * n + n - 1\<close> (as far as they
  exist) of the user's submissions ordered by creation time, newest first, strictly so
  when no two were created at the same instant; the metadata reports \<open>total = t\<close> and
  \<open>pages\<close> the ceiling of \<open>t / n\<close>, the least number of pages of size \<open>n\<close> that
  hold \<open>t\<close> items. With 25 submissions, page 2 and limit 10 the page holds the items
  11 to 20 and \<open>pages\<close> is 3.
\<close>

theorem history_pagination:
  assumes "parsedPage = Some p \<and> 1 \<le> p \<or> parsedPage \<in> {None, Some 0} \<and> p = 1"
    and "parsedLimit = Some n \<and> 1 \<le> n \<or> parsedLimit \<in> {None, Some 0} \<and> n = 10"
    and "mine = filter (\<lambda>s. userId s = uid) (submissions w)"
    and "ordered = sortByCreatedAtDesc mine"
  shows "history uid parsedPage parsedLimit w =
           HistoryPage
             (map withoutProvenance (take (nat n) (drop (nat ((p - 1) * n)) ordered)))
             \<lparr>page = p, limit = n, total = int (length mine),
              pages = \<lceil>real_of_int (int (length mine)) / real_of_int n\<rceil>\<rparr>
   \<and> mset ordered = mset mine
   \<and> (\<forall>i j. i < j \<and> j < length ordered
          \<longrightarrow> createdAt (ordered ! j) \<le> createdAt (ordered ! i))
   \<and> (distinct (map createdAt mine) \<longrightarrow>
        (\<forall>i j. i < j \<and> j < length ordered
          \<longrightarrow> createdAt (ordered ! j) < createdAt (ordered ! i)))
   \<and> (\<forall>found pg. history uid parsedPage parsedLimit w = HistoryPage found pg \<longrightarrow>
          length found = min (nat n) (length mine - nat ((p - 1) * n))
          \<and> (\<forall>i < length found.
                found ! i = withoutProvenance (ordered ! (nat ((p - 1) * n) + i)))
          \<and> total pg = int (length mine)
          \<and> pages pg = \<lceil>real_of_int (total pg) / real_of_int n\<rceil>
          \<and> (pages pg - 1) * n < total pg \<and> total pg \<le> pages pg * n)
   \<and> (length mine = 25 \<and> p = 2 \<and> n = 10 \<longrightarrow>
        history uid parsedPage parsedLimit w =
           HistoryPage (map (\<lambda>i. withoutProvenance (ordered ! i)) [10..<20])
             \<lparr>page = 2, limit = 10, total = 25, pages = 3\<rparr>)"
proof -
  note h = history_unfold [OF assms(1,2), of uid w, folded assms(3), folded assms(4)]
  have n1: "1 \<le> n"
    using assms(2) by auto
  have len: "length ordered = length mine"
    by (simp add: assms(4) sortByCreatedAtDesc_length)
  have perm: "mset ordered = mset mine"
    by (simp add: assms(4) sortByCreatedAtDesc_mset)
  have desc: "\<forall>i j. i < j \<and> j < length ordered
          \<longrightarrow> createdAt (ordered ! j) \<le> createdAt (ordered ! i)"
    unfolding assms(4) using sortByCreatedAtDesc_descending by blast
  have strict: "distinct (map createdAt mine) \<longrightarrow>
        (\<forall>i j. i < j \<and> j < length ordered
          \<longrightarrow> createdAt (ordered ! j) < createdAt (ordered ! i))"
    unfolding assms(4) using sortByCreatedAtDesc_strict by blast
  have page: "\<forall>found pg. history uid parsedPage parsedLimit w = HistoryPage found pg \<longrightarrow>
          length found = min (nat n) (length mine - nat ((p - 1) * n))
          \<and> (\<forall>i < length found.
                found ! i = withoutProvenance (ordered ! (nat ((p - 1) * n) + i)))
          \<and> total pg = int (length mine)
          \<and> pages pg = \<lceil>real_of_int (total pg) / real_of_int n\<rceil>
          \<and> (pages pg - 1) * n < total pg \<and> total pg \<le> pages pg * n"
    unfolding h using ceiling_bounds [OF n1, of "int (length mine)"]
    by (auto simp: len)
  have inst: "history uid parsedPage parsedLimit w =
           HistoryPage (map (\<lambda>i. withoutProvenance (ordered ! i)) [10..<20])
             \<lparr>page = 2, limit = 10, total = 25, pages = 3\<rparr>"
    if "length mine = 25" "p = 2" "n = 10"
  proof -
    have "take 10 (drop 10 ordered) = map ((!) ordered) [10..<10 + 10]"
      by (rule take_drop_nths) (simp add: len that)
    then show ?thesis
      unfolding h by (simp add: that o_def)
  qed
  show ?thesis
    using h perm desc strict page inst by blast
qed

text \<open>
  The witness: a store of four submissions, three of them of the user, read with page 2
  and limit 2 and read with no parameters; and a store of 25 submissions of the user
  created at the instants 0 to 24, read with page 2 and limit 10, which gives those
  created at 14 down to 5.
\<close>

theorem history_pagination_witness:
  "history ''u1'' (Some 2) (Some 2)
     \<lparr>submissions =
       [\<lparr>userId = ''u1'', formData = \<lparr>sleepHours = 8, anxietyLevel = 1, stressFrequency = 1,
          financialStress = 1, socialSupport = 10, workLifeBalance = 10, physicalActivity = 10,
          substanceUse = 1, moodChanges = 1, suicidalThoughts = 1\<rparr>,
        prediction = \<lparr>RiskAssessment.prediction = ''Low Risk'', confidence = 0.85,
          recommendations = lowRiskRecommendations, timestamp = 10\<rparr>,
        ipAddress = Some ''10.0.0.1'', userAgent = None, createdAt = 10\<rparr>,
        \<lparr>userId = ''u2'', formData = \<lparr>sleepHours = 8, anxietyLevel = 1, stressFrequency = 1,
          financialStress = 1, socialSupport = 10, workLifeBalance = 10, physicalActivity = 10,
          substanceUse = 1, moodChanges = 1, suicidalThoughts = 1\<rparr>,
        prediction = \<lparr>RiskAssessment.prediction = ''Low Risk'', confidence = 0.85,
          recommendations = lowRiskRecommendations, timestamp = 15\<rparr>,
        ipAddress = Some ''10.0.0.1'', userAgent = None, createdAt = 15\<rparr>,
        \<lparr>userId = ''u1'', formData = \<lparr>sleepHours = 8, anxietyLevel = 1, stressFrequency = 1,
          financialStress = 1, socialSupport = 10, workLifeBalance = 10, physicalActivity = 10,
          substanceUse = 1, moodChanges = 1, suicidalThoughts = 1\<rparr>,
        prediction = \<lparr>RiskAssessment.prediction = ''Low Risk'', confidence = 0.85,
          recommendations = lowRiskRecommendations, timestamp = 30\<rparr>,
        ipAddress = Some ''10.0.0.1'', userAgent = None, createdAt = 30\<rparr>,
        \<lparr>userId = ''u1'', formData = \<lparr>sleepHours = 8, anxietyLevel = 1, stressFrequency = 1,
          financialStress = 1, socialSupport = 10, workLifeBalance = 10, physicalActivity = 10,
          substanceUse = 1, moodChanges = 1, suicidalThoughts = 1\<rparr>,
        prediction = \<lparr>RiskAssessment.prediction = ''Low Risk'', confidence = 0.85,
          recommendations = lowRiskRecommendations, timestamp = 20\<rparr>,
        ipAddress = Some ''10.0.0.1'', userAgent = None, createdAt = 20\<rparr>],
      assessmentCount = Map.empty, mlRequests = [], console = []\<rparr>
   = HistoryPage
       [\<lparr>userId = ''u1'', formData = \<lparr>sleepHours = 8, anxietyLevel = 1, stressFrequency = 1,
          financialStress = 1, socialSupport = 10, workLifeBalance = 10, physicalActivity = 10,
          substanceUse = 1, moodChanges = 1, suicidalThoughts = 1\<rparr>,
        prediction = \<lparr>RiskAssessment.prediction = ''Low Risk'', confidence = 0.85,
          recommendations = lowRiskRecommendations, timestamp = 10\<rparr>,
        ipAddress = None, userAgent = None, createdAt = 10\<rparr>]
       \<lparr>page = 2, limit = 2, total = 3, pages = 2\<rparr>
   \<and> history ''u1'' None None
     \<lparr>submissions =
       [\<lparr>userId = ''u1'', formData = \<lparr>sleepHours = 8, anxietyLevel = 1, stressFrequency = 1,
          financialStress = 1, socialSupport = 10, workLifeBalance = 10, physicalActivity = 10,
          substanceUse = 1, moodChanges = 1, suicidalThoughts = 1\<rparr>,
        prediction = \<lparr>RiskAssessment.prediction = ''Low Risk'', confidence = 0.85,
          recommendations = lowRiskRecommendations, timestamp = 10\<rparr>,
        ipAddress = Some ''10.0.0.1'', userAgent = None, createdAt = 10\<rparr>,
        \<lparr>userId = ''u2'', formData = \<lparr>sleepHours = 8, anxietyLevel = 1, stressFrequency = 1,
          financialStress = 1, socialSupport = 10, workLifeBalance = 10, physicalActivity = 10,
          substanceUse = 1, moodChanges = 1, suicidalThoughts = 1\<rparr>,
        prediction = \<lparr>RiskAssessment.prediction = ''Low Risk'', confidence = 0.85,
          recommendations = lowRiskRecommendations, timestamp = 15\<rparr>,
        ipAddress = Some ''10.0.0.1'', userAgent = None, createdAt = 15\<rparr>,
        \<lparr>userId = ''u1'', formData = \<lparr>sleepHours = 8, anxietyLevel = 1, stressFrequency = 1,
          financialStress = 1, socialSupport = 10, workLifeBalance = 10, physicalActivity = 10,
          substanceUse = 1, moodChanges = 1, suicidalThoughts = 1\<rparr>,
        prediction = \<lparr>RiskAssessment.prediction = ''Low Risk'', confidence = 0.85,
          recommendations = lowRiskRecommendations, timestamp = 30\<rparr>,
        ipAddress = Some ''10.0.0.1'', userAgent = None, createdAt = 30\<rparr>,
        \<lparr>userId = ''u1'', formData = \<lparr>sleepHours = 8, anxietyLevel = 1, stressFrequency = 1,
          financialStress = 1, socialSupport = 10, workLifeBalance = 10, physicalActivity = 10,
          substanceUse = 1, moodChanges = 1, suicidalThoughts = 1\<rparr>,
        prediction = \<lparr>RiskAssessment.prediction = ''Low Risk'', confidence = 0.85,
          recommendations = lowRiskRecommendations, timestamp = 20\<rparr>,
        ipAddress = Some ''10.0.0.1'', userAgent = None, createdAt = 20\<rparr>],
      assessmentCount = Map.empty, mlRequests = [], console = []\<rparr>
   = HistoryPage
       [\<lparr>userId = ''u1'', formData = \<lparr>sleepHours = 8, anxietyLevel = 1, stressFrequency = 1,
          financialStress = 1, socialSupport = 10, workLifeBalance = 10, physicalActivity = 10,
          substanceUse = 1, moodChanges = 1, suicidalThoughts = 1\<rparr>,
        prediction = \<lparr>RiskAssessment.prediction = ''Low Risk'', confidence = 0.85,
          recommendations = lowRiskRecommendations, timestamp = 30\<rparr>,
        ipAddress = None, userAgent = None, createdAt = 30\<rparr>,
        \<lparr>userId = ''u1'', formData = \<lparr>sleepHours = 8, anxietyLevel = 1, stressFrequency = 1,
          financialStress = 1, socialSupport = 10, workLifeBalance = 10, physicalActivity = 10,
          substanceUse = 1, moodChanges = 1, suicidalThoughts = 1\<rparr>,
        prediction = \<lparr>RiskAssessment.prediction = ''Low Risk'', confidence = 0.85,
          recommendations = lowRiskRecommendations, timestamp = 20\<rparr>,
        ipAddress = None, userAgent = None, createdAt = 20\<rparr>,
        \<lparr>userId = ''u1'', formData = \<lparr>sleepHours = 8, anxietyLevel = 1, stressFrequency = 1,
          financialStress = 1, socialSupport = 10, workLifeBalance = 10, physicalActivity = 10,
          substanceUse = 1, moodChanges = 1, suicidalThoughts = 1\<rparr>,
        prediction = \<lparr>RiskAssessment.prediction = ''Low Risk'', confidence = 0.85,
          recommendations = lowRiskRecommendations, timestamp = 10\<rparr>,
        ipAddress = None, userAgent = None, createdAt = 10\<rparr>]
       \<lparr>page = 1, limit = 10, total = 3, pages = 1\<rparr>
   \<and> history ''u1'' (Some 2) (Some 10)
     \<lparr>submissions = map (\<lambda>k. \<lparr>userId = ''u1'', formData = \<lparr>sleepHours = 8, anxietyLevel = 1, stressFrequency = 1,
          financialStress = 1, socialSupport = 10, workLifeBalance = 10, physicalActivity = 10,
          substanceUse = 1, moodChanges = 1, suicidalThoughts = 1\<rparr>,
        prediction = \<lparr>RiskAssessment.prediction = ''Low Risk'', confidence = 0.85,
          recommendations = lowRiskRecommendations, timestamp = k\<rparr>,
        ipAddress = Some ''10.0.0.1'', userAgent = None, createdAt = k\<rparr>) [0..<25],
      assessmentCount = Map.empty, mlRequests = [], console = []\<rparr>
   = HistoryPage
       (map (\<lambda>k. \<lparr>userId = ''u1'', formData = \<lparr>sleepHours = 8, anxietyLevel = 1, stressFrequency = 1,
          financialStress = 1, socialSupport = 10, workLifeBalance = 10, physicalActivity = 10,
          substanceUse = 1, moodChanges = 1, suicidalThoughts = 1\<rparr>,
        prediction = \<lparr>RiskAssessment.prediction = ''Low Risk'', confidence = 0.85,
          recommendations = lowRiskRecommendations, timestamp = k\<rparr>,
        ipAddress = None, userAgent = None, createdAt = k\<rparr>) (rev [5..<15]))
       \<lparr>page = 2, limit = 10, total = 25, pages = 3\<rparr>"
proof -
  let ?w = "\<lparr>submissions =
       [\<lparr>userId = ''u1'', formData = \<lparr>sleepHours = 8, anxietyLevel = 1, stressFrequency = 1,
          financialStress = 1, socialSupport = 10, workLifeBalance = 10, physicalActivity = 10,
          substanceUse = 1, moodChanges = 1, suicidalThoughts = 1\<rparr>,
        prediction = \<lparr>RiskAssessment.prediction = ''Low Risk'', confidence = 0.85,
          recommendations = lowRiskRecommendations, timestamp = 10\<rparr>,
        ipAddress = Some ''10.0.0.1'', userAgent = None, createdAt = 10\<rparr>,
        \<lparr>userId = ''u2'', formData = \<lparr>sleepHours = 8, anxietyLevel = 1, stressFrequency = 1,
          financialStress = 1, socialSupport = 10, workLifeBalance = 10, physicalActivity = 10,
          substanceUse = 1, moodChanges = 1, suicidalThoughts = 1\<rparr>,
        prediction = \<lparr>RiskAssessment.prediction = ''Low Risk'', confidence = 0.85,
          recommendations = lowRiskRecommendations, timestamp = 15\<rparr>,
        ipAddress = Some ''10.0.0.1'', userAgent = None, createdAt = 15\<rparr>,
        \<lparr>userId = ''u1'', formData = \<lparr>sleepHours = 8, anxietyLevel = 1, stressFrequency = 1,
          financialStress = 1, socialSupport = 10, workLifeBalance = 10, physicalActivity = 10,
          substanceUse = 1, moodChanges = 1, suicidalThoughts = 1\<rparr>,
        prediction = \<lparr>RiskAssessment.prediction = ''Low Risk'', confidence = 0.85,
          recommendations = lowRiskRecommendations, timestamp = 30\<rparr>,
        ipAddress = Some ''10.0.0.1'', userAgent = None, createdAt = 30\<rparr>,
        \<lparr>userId = ''u1'', formData = \<lparr>sleepHours = 8, anxietyLevel = 1, stressFrequency = 1,
          financialStress = 1, socialSupport = 10, workLifeBalance = 10, physicalActivity = 10,
          substanceUse = 1, moodChanges = 1, suicidalThoughts = 1\<rparr>,
        prediction = \<lparr>RiskAssessment.prediction = ''Low Risk'', confidence = 0.85,
          recommendations = lowRiskRecommendations, timestamp = 20\<rparr>,
        ipAddress = Some ''10.0.0.1'', userAgent = None, createdAt = 20\<rparr>],
      assessmentCount = Map.empty, mlRequests = [], console = []\<rparr>"
  let ?f = "\<lambda>k. \<lparr>userId = ''u1'', formData = \<lparr>sleepHours = 8, anxietyLevel = 1, stressFrequency = 1,
          financialStress = 1, socialSupport = 10, workLifeBalance = 10, physicalActivity = 10,
          substanceUse = 1, moodChanges = 1, suicidalThoughts = 1\<rparr>,
        prediction = \<lparr>RiskAssessment.prediction = ''Low Risk'', confidence = 0.85,
          recommendations = lowRiskRecommendations, timestamp = k\<rparr>,
        ipAddress = Some ''10.0.0.1'', userAgent = None, createdAt = k\<rparr>"
  let ?v = "\<lparr>submissions = map (\<lambda>k. \<lparr>userId = ''u1'', formData = \<lparr>sleepHours = 8, anxietyLevel = 1, stressFrequency = 1,
          financialStress = 1, socialSupport = 10, workLifeBalance = 10, physicalActivity = 10,
          substanceUse = 1, moodChanges = 1, suicidalThoughts = 1\<rparr>,
        prediction = \<lparr>RiskAssessment.prediction = ''Low Risk'', confidence = 0.85,
          recommendations = lowRiskRecommendations, timestamp = k\<rparr>,
        ipAddress = Some ''10.0.0.1'', userAgent = None, createdAt = k\<rparr>) [0..<25],
      assessmentCount = Map.empty, mlRequests = [], console = []\<rparr>"
  have p2: "Some 2 = Some (2::int) \<and> 1 \<le> (2::int) \<or> Some 2 \<in> {None, Some 0} \<and> (2::int) = 1"
    and n2: "Some 2 = Some (2::int) \<and> 1 \<le> (2::int) \<or> Some 2 \<in> {None, Some 0} \<and> (2::int) = 10"
    and n10: "Some 10 = Some (10::int) \<and> 1 \<le> (10::int)
              \<or> Some 10 \<in> {None, Some 0} \<and> (10::int) = 10"
    and pd: "None = Some (1::int) \<and> 1 \<le> (1::int) \<or> None \<in> {None, Some 0} \<and> (1::int) = 1"
    and nd: "None = Some (10::int) \<and> 1 \<le> (10::int)
              \<or> None \<in> {None, Some 0} \<and> (10::int) = 10"
    by simp_all
  have small: "history ''u1'' (Some 2) (Some 2) ?w
   = HistoryPage
       [\<lparr>userId = ''u1'', formData = \<lparr>sleepHours = 8, anxietyLevel = 1, stressFrequency = 1,
          financialStress = 1, socialSupport = 10, workLifeBalance = 10, physicalActivity = 10,
          substanceUse = 1, moodChanges = 1, suicidalThoughts = 1\<rparr>,
        prediction = \<lparr>RiskAssessment.prediction = ''Low Risk'', confidence = 0.85,
          recommendations = lowRiskRecommendations, timestamp = 10\<rparr>,
        ipAddress = None, userAgent = None, createdAt = 10\<rparr>]
       \<lparr>page = 2, limit = 2, total = 3, pages = 2\<rparr>"
    using history_pagination [OF p2 n2 refl refl, of "''u1''" ?w]
    by (simp add: sortByCreatedAtDesc_def withoutProvenance_def)
  have none: "history ''u1'' None None ?w
   = HistoryPage
       [\<lparr>userId = ''u1'', formData = \<lparr>sleepHours = 8, anxietyLevel = 1, stressFrequency = 1,
          financialStress = 1, socialSupport = 10, workLifeBalance = 10, physicalActivity = 10,
          substanceUse = 1, moodChanges = 1, suicidalThoughts = 1\<rparr>,
        prediction = \<lparr>RiskAssessment.prediction = ''Low Risk'', confidence = 0.85,
          recommendations = lowRiskRecommendations, timestamp = 30\<rparr>,
        ipAddress = None, userAgent = None, createdAt = 30\<rparr>,
        \<lparr>userId = ''u1'', formData = \<lparr>sleepHours = 8, anxietyLevel = 1, stressFrequency = 1,
          financialStress = 1, socialSupport = 10, workLifeBalance = 10, physicalActivity = 10,
          substanceUse = 1, moodChanges = 1, suicidalThoughts = 1\<rparr>,
        prediction = \<lparr>RiskAssessment.prediction = ''Low Risk'', confidence = 0.85,
          recommendations = lowRiskRecommendations, timestamp = 20\<rparr>,
        ipAddress = None, userAgent = None, createdAt = 20\<rparr>,
        \<lparr>userId = ''u1'', formData = \<lparr>sleepHours = 8, anxietyLevel = 1, stressFrequency = 1,
          financialStress = 1, socialSupport = 10, workLifeBalance = 10, physicalActivity = 10,
          substanceUse = 1, moodChanges = 1, suicidalThoughts = 1\<rparr>,
        prediction = \<lparr>RiskAssessment.prediction = ''Low Risk'', confidence = 0.85,
          recommendations = lowRiskRecommendations, timestamp = 10\<rparr>,
        ipAddress = None, userAgent = None, createdAt = 10\<rparr>]
       \<lparr>page = 1, limit = 10, total = 3, pages = 1\<rparr>"
    using history_pagination [OF pd nd refl refl, of "''u1''" ?w]
    by (simp add: sortByCreatedAtDesc_def withoutProvenance_def)
  have mine: "filter (\<lambda>s. userId s = ''u1'') (submissions ?v) = map ?f [0..<25]"
    by (simp add: filter_map o_def)
  have "sorted_wrt (<) (map createdAt (map ?f [0..<25]))"
    by (simp add: o_def)
  then have ordered: "sortByCreatedAtDesc (map ?f [0..<25]) = map ?f (rev [0..<25])"
    by (simp only: sortByCreatedAtDesc_chronological rev_map)
  have twentyfive: "length (map ?f [0..<25]) = 25 \<and> (2::int) = 2 \<and> (10::int) = 10"
    by simp
  have e1: "[10..<20] = [10, 11, 12, 13, 14, 15, 16, 17, 18, 19 :: nat]"
    and e2: "rev [5..<15] = [14, 13, 12, 11, 10, 9, 8, 7, 6, 5 :: nat]"
    by (simp_all add: upt_rec_numeral)
  have "history ''u1'' (Some 2) (Some 10) ?v =
           HistoryPage
             (map (\<lambda>i. withoutProvenance (sortByCreatedAtDesc (map ?f [0..<25]) ! i)) [10..<20])
             \<lparr>page = 2, limit = 10, total = 25, pages = 3\<rparr>"
    by (rule history_pagination [OF p2 n10 mine [symmetric] refl, THEN conjunct2,
          THEN conjunct2, THEN conjunct2, THEN conjunct2, THEN conjunct2, THEN mp,
          OF twentyfive])
  then have big: "history ''u1'' (Some 2) (Some 10) ?v
   = HistoryPage
       (map (\<lambda>k. \<lparr>userId = ''u1'', formData = \<lparr>sleepHours = 8, anxietyLevel = 1, stressFrequency = 1,
          financialStress = 1, socialSupport = 10, workLifeBalance = 10, physicalActivity = 10,
          substanceUse = 1, moodChanges = 1, suicidalThoughts = 1\<rparr>,
        prediction = \<lparr>RiskAssessment.prediction = ''Low Risk'', confidence = 0.85,
          recommendations = lowRiskRecommendations, timestamp = k\<rparr>,
        ipAddress = None, userAgent = None, createdAt = k\<rparr>) (rev [5..<15]))
       \<lparr>page = 2, limit = 10, total = 25, pages = 3\<rparr>"
    unfolding ordered e1 e2 by (simp add: withoutProvenance_def rev_nth)
  show ?thesis
    using small none big by blast
qed

end
